theory Spec2Isabelle
  imports Complex_Main "HOL-Library.Product_Lexorder" "HOL-Library.Char_ord"
    "HOL-Library.List_Lexorder"
begin

section \<open>Python built-ins used by the matching engine\<close>

text \<open>
  Strings are ASCII character lists. Python floats are modelled as real numbers: every
  score below is the exact value of the formula the code evaluates, with rounding left out.
  A Python \<open>dict\<close> is an association list with pairwise distinct keys, in insertion order.
  A Python \<open>set\<close> turned into a list has no duplicates and an unspecified order; the model
  fixes one order and the theorems speak about lengths, members and sums only.
\<close>

definition lower_char :: "char \<Rightarrow> char" where
  "lower_char c =
     (let n = (of_char c :: nat) in if 65 \<le> n \<and> n \<le> 90 then char_of (n + 32) else c)"

definition lower :: "string \<Rightarrow> string" where
  "lower s = map lower_char s"

definition isspace :: "char \<Rightarrow> bool" where
  "isspace c = ((of_char c :: nat) \<in> {9, 10, 11, 12, 13, 28, 29, 30, 31, 32})"

definition strip :: "string \<Rightarrow> string" where
  "strip s = rev (dropWhile isspace (rev (dropWhile isspace s)))"

fun startswith :: "string \<Rightarrow> string \<Rightarrow> bool" where
  "startswith s [] = True"
| "startswith [] (p # ps) = False"
| "startswith (c # cs) (p # ps) = (c = p \<and> startswith cs ps)"

text \<open>\<open>str_in sub s\<close> is Python's \<open>sub in s\<close> on strings.\<close>

fun str_in :: "string \<Rightarrow> string \<Rightarrow> bool" where
  "str_in sub [] = (sub = [])"
| "str_in sub (c # cs) = (startswith (c # cs) sub \<or> str_in sub cs)"

text \<open>
  \<open>replace s old new\<close> is \<open>s.replace(old, new)\<close> for a non-empty \<open>old\<close>: the
  occurrences are replaced from left to right without overlap. The source only calls it
  with the non-empty keys of its substitution table.
\<close>

fun replace :: "string \<Rightarrow> string \<Rightarrow> string \<Rightarrow> string" where
  "replace [] old new = []"
| "replace (c # cs) old new =
     (if old \<noteq> [] \<and> startswith (c # cs) old
      then new @ replace (drop (length old - 1) cs) old new
      else c # replace cs old new)"

text \<open>\<open>split s\<close> is \<open>s.split()\<close>: the maximal runs of non-space characters.\<close>

fun split_acc :: "string \<Rightarrow> string \<Rightarrow> string list" where
  "split_acc w [] = (if w = [] then [] else [rev w])"
| "split_acc w (c # cs) =
     (if isspace c then (if w = [] then split_acc [] cs else rev w # split_acc [] cs)
      else split_acc (c # w) cs)"

definition split :: "string \<Rightarrow> string list" where
  "split s = split_acc [] s"

subsection \<open>Dictionaries\<close>

type_synonym ('k, 'v) dict = "('k \<times> 'v) list"

definition keys :: "('k, 'v) dict \<Rightarrow> 'k list" where
  "keys d = map fst d"

text \<open>\<open>dict_get d k dflt\<close> is \<open>d.get(k, dflt)\<close>.\<close>

definition dict_get :: "('k, 'v) dict \<Rightarrow> 'k \<Rightarrow> 'v \<Rightarrow> 'v" where
  "dict_get d k dflt = (case map_of d k of None \<Rightarrow> dflt | Some v \<Rightarrow> v)"

text \<open>\<open>dict_set d k v\<close> is \<open>d[k] = v\<close>: an existing key keeps its place, a new one is appended.\<close>

fun dict_set :: "('k, 'v) dict \<Rightarrow> 'k \<Rightarrow> 'v \<Rightarrow> ('k, 'v) dict" where
  "dict_set [] k v = [(k, v)]"
| "dict_set ((k', v') # d) k v = (if k' = k then (k, v) # d else (k', v') # dict_set d k v)"

text \<open>Set operations on key lists: \<open>a.intersection(b)\<close>, \<open>a - b\<close>, \<open>a.union(b)\<close>.\<close>

definition intersection :: "'k list \<Rightarrow> 'k list \<Rightarrow> 'k list" where
  "intersection a b = filter (\<lambda>k. k \<in> set b) (remdups a)"

definition difference :: "'k list \<Rightarrow> 'k list \<Rightarrow> 'k list" where
  "difference a b = filter (\<lambda>k. k \<notin> set b) (remdups a)"

definition union_ids :: "'k list \<Rightarrow> 'k list \<Rightarrow> 'k list" where
  "union_ids a b = remdups (a @ b)"

section \<open>utils/skill\_filters.py\<close>

definition meaningless_skills :: "string list" where
  "meaningless_skills =
   [''los'', ''com'', ''act'', ''inc'', ''ltd'', ''llc'', ''corp'', ''co'', ''org'',
    ''www'', ''http'', ''https'']"

definition partial_phrases_and_common_words :: "string list" where
  "partial_phrases_and_common_words =
   [''adding'', ''using'', ''working'', ''developing'', ''creating'', ''building'',
    ''making'', ''managing'', ''leading'', ''supporting'', ''helping'', ''solving'',
    ''planning'', ''organizing'', ''coordinating'', ''monitoring'', ''tracking'',
    ''reporting'', ''writing'', ''reading'', ''speaking'', ''listening'', ''thinking'',
    ''learning'', ''teaching'', ''training'', ''studying'', ''researching'', ''analyzing'',
    ''testing'', ''reviewing'', ''evaluating'', ''assessing'', ''improving'', ''updating'',
    ''maintaining'', ''session'', ''sessions'', ''meeting'', ''meetings'', ''conference'',
    ''workshop'', ''locks'', ''lock'', ''key'', ''keys'', ''door'', ''doors'', ''window'',
    ''windows'', ''the'', ''and'', ''or'', ''but'', ''with'', ''for'', ''from'', ''about'',
    ''into'', ''through'', ''during'', ''before'', ''after'', ''above'', ''below'',
    ''between'', ''among'', ''across'', ''all'', ''some'', ''many'', ''few'', ''more'',
    ''most'', ''less'', ''much'', ''very'', ''too'', ''so'', ''just'', ''only'', ''also'',
    ''even'', ''still'', ''already'', ''yet'', ''now'', ''then'']"

definition invalid_terms :: "string list" where
  "invalid_terms =
   [''job description'', ''job'', ''description'', ''position'', ''role'', ''opportunity'',
    ''candidate'', ''resume'', ''apply'', ''hiring'', ''employment'', ''work'',
    ''company'', ''team'', ''department'', ''requirements'', ''qualifications'',
    ''responsibilities'', ''benefits'', ''salary'', ''location'', ''remote'', ''onsite'',
    ''full-time'', ''part-time'', ''contract'', ''temporary'', ''entry level'', ''senior'',
    ''junior'', ''manager'', ''director'', ''schedule job'', ''job posting'',
    ''job board'', ''career'', ''schedule'', ''posting'', ''board'', ''opening'',
    ''vacancy'']"

definition medical_conditions :: "string list" where
  "medical_conditions =
   [''cancer'', ''diabetes'', ''heart disease'', ''stroke'', ''alzheimer'', ''dementia'',
    ''arthritis'', ''asthma'', ''pneumonia'', ''bronchitis'', ''infection'', ''virus'',
    ''bacteria'', ''disease'', ''illness'', ''syndrome'', ''disorder'', ''condition'',
    ''symptom'', ''treatment'', ''therapy'', ''medication'', ''drug'', ''medicine'',
    ''surgery'', ''operation'', ''procedure'', ''diagnosis'', ''prognosis'',
    ''breast cancer'', ''lung cancer'', ''skin cancer'', ''prostate cancer'',
    ''bladder cancer'', ''liver cancer'', ''kidney cancer'', ''brain cancer'']"

definition problematic_patterns :: "string list" where
  "problematic_patterns =
   [''mathematics computer'', ''support browsers'', ''support developed'',
    ''computers mathematics'', ''browsers support'']"

definition valid_support_skills :: "string list" where
  "valid_support_skills =
   [''support vector machines'', ''support engineering'', ''support documentation'',
    ''support systems'', ''support services'', ''support operations'']"

definition generic_noise_skills :: "string list" where
  "generic_noise_skills =
   [''innovation'', ''creativity'', ''san'', ''communication'', ''teamwork'',
    ''problem solving'', ''leadership'', ''time management'', ''organization'',
    ''attention to detail'', ''multitasking'', ''flexibility'', ''adaptability'',
    ''customer service'', ''sales'', ''operations'', ''planning'', ''finance'',
    ''teaching'', ''training'', ''education'', ''learning'', ''development'', ''research'',
    ''analysis'', ''evaluation'', ''assessment'', ''review'', ''support'', ''assistance'',
    ''help'', ''service'', ''quality'', ''improvement'', ''management'',
    ''administration'', ''coordination'', ''supervision'', ''monitoring'', ''tracking'',
    ''reporting'', ''documentation'', ''compliance'', ''policy'', ''procedure'',
    ''process'', ''workflow'', ''standard'', ''guideline'', ''requirement'',
    ''specification'', ''criteria'', ''objective'', ''goal'', ''strategy'', ''plan'',
    ''approach'', ''method'', ''technique'', ''tool'', ''resource'', ''material'',
    ''equipment'', ''facility'', ''environment'', ''culture'', ''value'', ''principle'',
    ''ethic'', ''integrity'', ''honesty'']"

definition standalone_gerunds :: "string list" where
  "standalone_gerunds =
   [''adding'', ''using'', ''working'', ''developing'', ''creating'', ''building'',
    ''making'', ''managing'', ''leading'', ''supporting'', ''helping'', ''solving'',
    ''planning'', ''organizing'', ''coordinating'', ''monitoring'', ''tracking'',
    ''reporting'', ''writing'', ''reading'', ''speaking'', ''listening'', ''thinking'',
    ''learning'', ''teaching'', ''training'', ''studying'', ''researching'', ''analyzing'',
    ''testing'']"

definition is_valid_skill :: "string \<Rightarrow> bool" where
  "is_valid_skill skill_name =
     (let skill_lower = strip (lower skill_name) in
      if length skill_lower \<le> 2 then False
      else if skill_lower \<in> set meaningless_skills then False
      else if skill_lower \<in> set invalid_terms then False
      else if skill_lower \<in> set partial_phrases_and_common_words then False
      else if skill_lower \<in> set medical_conditions then False
      else if skill_lower \<in> set problematic_patterns then False
      else if startswith skill_lower ''support '' \<and> length (split skill_lower) = 2
              \<and> skill_lower \<notin> set valid_support_skills then False
      else if skill_lower \<in> set generic_noise_skills then False
      else if skill_lower \<in> set standalone_gerunds then False
      else True)"

definition substitutions :: "(string \<times> string) list" where
  "substitutions =
   [(''javascript'', ''js''),
    (''typescript'', ''ts''),
    (''reactjs'', ''react''),
    (''react js'', ''react''),
    (''nodejs'', ''node.js''),
    (''node js'', ''node.js''),
    (''restful apis'', ''restful api''),
    (''api development'', ''api''),
    (''database design'', ''database''),
    (''sql server'', ''sql''),
    (''mysql'', ''sql''),
    (''postgresql'', ''sql''),
    (''postgres'', ''sql''),
    (''software development'', ''software engineering''),
    (''web development'', ''web dev''),
    (''frontend'', ''front-end''),
    (''backend'', ''back-end''),
    (''fullstack'', ''full-stack''),
    (''full stack'', ''full-stack'')]"

definition substitute :: "string \<Rightarrow> string \<times> string \<Rightarrow> string" where
  "substitute normalized sub =
     (if str_in (fst sub) normalized then replace normalized (fst sub) (snd sub)
      else normalized)"

definition normalize_skill_name :: "string \<Rightarrow> string" where
  "normalize_skill_name skill_name = foldl substitute (strip (lower skill_name)) substitutions"

definition technical_keywords :: "string list" where
  "technical_keywords =
   [''python'', ''java'', ''javascript'', ''js'', ''typescript'', ''ts'', ''c++'', ''c#'',
    ''php'', ''ruby'', ''go'', ''rust'', ''scala'', ''kotlin'', ''react'', ''angular'',
    ''vue'', ''node.js'', ''django'', ''flask'', ''spring'', ''express'', ''laravel'',
    ''sql'', ''mysql'', ''postgresql'', ''mongodb'', ''redis'', ''elasticsearch'',
    ''database'', ''docker'', ''kubernetes'', ''git'', ''jenkins'', ''aws'', ''azure'',
    ''gcp'', ''linux'', ''unix'', ''api'', ''restful'', ''graphql'', ''microservices'',
    ''cloud'', ''blockchain'', ''ai'', ''machine learning'', ''ml'',
    ''software engineering'', ''computer science'', ''algorithm'', ''data structure'',
    ''testing'', ''debugging'']"

definition is_technical_skill :: "string \<Rightarrow> bool" where
  "is_technical_skill skill_name =
     (let skill_lower = strip (lower skill_name)
      in list_ex (\<lambda>keyword. str_in keyword skill_lower) technical_keywords)"

section \<open>services/job\_matching.py\<close>

subsection \<open>The store\<close>

text \<open>
  The tables the matcher reads, as lists of rows. Nullable columns are options. The
  JSON columns of \<open>job_matches\<close> hold lists of skill identifiers, which are names
  (\<open>Str\<close>) for the pairwise matcher and integer keys (\<open>Num\<close>) for the TF-IDF matcher.
  \<open>job_postings\<close> is
  listed in the order of the matcher's query (\<open>ORDER BY scraped_date DESC\<close>).
\<close>

record user_skills_emsi_row =
  use_user_id :: nat
  use_emsi_skill_id :: string
  use_skill_name :: string
  use_proficiency_level :: real
  use_confidence :: real

record job_posting_row =
  jp_id :: nat
  jp_title :: string
  jp_is_active :: bool

record job_skills_emsi_row =
  jse_job_id :: nat
  jse_emsi_skill_id :: string
  jse_skill_name :: string
  jse_importance :: "real option"

record emsi_skills_row =
  es_skill_id :: string
  es_skill_name :: string
  es_skill_type :: string

datatype json_id = Str string | Num nat

record job_match_row =
  jm_id :: nat
  jm_user_id :: nat
  jm_job_id :: nat
  jm_alignment_score :: "real option"
  jm_similarity_score :: "real option"
  jm_jaccard_score :: "real option"
  jm_cosine_score :: "real option"
  jm_weighted_score :: "real option"
  jm_skill_coverage :: "real option"
  jm_algorithm_version :: string
  jm_missing_skills :: "json_id list option"
  jm_matched_skills :: "json_id list option"
  jm_matching_skills :: "json_id list option"

text \<open>Python's \<open>x or y\<close> on a nullable number and on a nullable list.\<close>

definition or_num :: "real option \<Rightarrow> real \<Rightarrow> real" where
  "or_num x y = (case x of None \<Rightarrow> y | Some v \<Rightarrow> if v = 0 then y else v)"

definition or_list :: "'a list option \<Rightarrow> 'a list \<Rightarrow> 'a list" where
  "or_list x y = (case x of None \<Rightarrow> y | Some v \<Rightarrow> if v = [] then y else v)"

text \<open>\<open>dict_item d k\<close> is \<open>d[k]\<close> for a key \<open>k\<close> taken from \<open>d\<close>'s own keys.\<close>

definition dict_item :: "('k, 'v) dict \<Rightarrow> 'k \<Rightarrow> 'v" where
  "dict_item d k = the (map_of d k)"

subsection \<open>\_get\_user\_skills and \_get\_jobs\_with\_skills\<close>

definition user_skill_step ::
  "(string, real) dict \<Rightarrow> user_skills_emsi_row \<Rightarrow> (string, real) dict" where
  "user_skill_step filtered_skills row =
     (let skill_name = use_skill_name row in
      if \<not> is_valid_skill skill_name then filtered_skills
      else
        let normalized_name = normalize_skill_name skill_name;
            proficiency = (if is_technical_skill skill_name
                           then min 1 (use_proficiency_level row * (12 / 10))
                           else use_proficiency_level row)
        in if normalized_name \<in> set (keys filtered_skills)
           then dict_set filtered_skills normalized_name
                  (max (dict_item filtered_skills normalized_name) proficiency)
           else dict_set filtered_skills normalized_name proficiency)"

definition get_user_skills :: "user_skills_emsi_row list \<Rightarrow> nat \<Rightarrow> (string, real) dict" where
  "get_user_skills user_skills_emsi user_id =
     foldl user_skill_step [] (filter (\<lambda>row. use_user_id row = user_id) user_skills_emsi)"

definition job_skill_step ::
  "(string, real) dict \<Rightarrow> job_skills_emsi_row \<Rightarrow> (string, real) dict" where
  "job_skill_step filtered_skills skill =
     (let skill_name = jse_skill_name skill in
      if \<not> is_valid_skill skill_name then filtered_skills
      else
        let normalized_name = normalize_skill_name skill_name;
            importance0 = or_num (jse_importance skill) 1;
            importance = (if is_technical_skill skill_name
                          then min 2 (importance0 * (13 / 10)) else importance0)
        in if normalized_name \<in> set (keys filtered_skills)
           then dict_set filtered_skills normalized_name
                  (max (dict_item filtered_skills normalized_name) importance)
           else dict_set filtered_skills normalized_name importance)"

record job_data =
  jd_id :: nat
  jd_title :: string
  jd_skills :: "(string, real) dict"

definition get_jobs_with_skills ::
  "job_posting_row list \<Rightarrow> job_skills_emsi_row list \<Rightarrow> job_data list" where
  "get_jobs_with_skills job_postings job_skills_emsi =
     (let jobs = filter (\<lambda>jp. jp_is_active jp
                           \<and> list_ex (\<lambda>jse. jse_job_id jse = jp_id jp) job_skills_emsi)
                   job_postings
      in concat (map (\<lambda>job.
           let job_skills = filter (\<lambda>jse. jse_job_id jse = jp_id job) job_skills_emsi;
               filtered_skills = foldl job_skill_step [] job_skills
           in if length filtered_skills \<ge> 2
              then [\<lparr> jd_id = jp_id job, jd_title = jp_title job, jd_skills = filtered_skills \<rparr>]
              else []) jobs))"

subsection \<open>\_calculate\_similarity\<close>

text \<open>
  Modelled from the spec: \<open>sklearn.metrics.pairwise.cosine_similarity\<close> is a library call;
  the spec gives it as the cosine similarity of the two vectors, a zero-magnitude vector
  giving 0.
\<close>

definition cosine_similarity :: "real list \<Rightarrow> real list \<Rightarrow> real" where
  "cosine_similarity x y =
     (let dot = sum_list (map2 (*) x y);
          norm_x = sqrt (sum_list (map (\<lambda>v. v * v) x));
          norm_y = sqrt (sum_list (map (\<lambda>v. v * v) y))
      in if norm_x = 0 \<or> norm_y = 0 then 0 else dot / (norm_x * norm_y))"

record similarity =
  overall :: real
  jaccard :: real
  cosine :: real
  weighted :: real

text \<open>One pass of the loop over the job's skills: the three accumulators.\<close>

definition weighted_step ::
  "(string, real) dict \<Rightarrow> (string, real) dict \<Rightarrow> real \<times> real \<times> real \<Rightarrow> string
     \<Rightarrow> real \<times> real \<times> real" where
  "weighted_step user_skills job_skills acc skill_name =
     (case acc of (weighted_score, total_weight, technical_bonus) \<Rightarrow>
        let job_importance = dict_item job_skills skill_name;
            user_proficiency = dict_get user_skills skill_name 0;
            base_score = user_proficiency * job_importance
        in (weighted_score + base_score, total_weight + job_importance,
            if user_proficiency > 0 \<and> is_technical_skill skill_name
            then technical_bonus + base_score * (5 / 10) else technical_bonus))"

definition calculate_similarity ::
  "(string, real) dict \<Rightarrow> (string, real) dict \<Rightarrow> similarity" where
  "calculate_similarity user_skills job_skills =
     (let user_skill_ids = remdups (keys user_skills);
          job_skill_ids = remdups (keys job_skills);
          inter = intersection user_skill_ids job_skill_ids;
          un = union_ids user_skill_ids job_skill_ids;
          jac = (if un \<noteq> [] then real (length inter) / real (length un) else 0);
          all_skills = sort un
      in if all_skills = []
         then \<lparr> overall = 0, jaccard = 0, cosine = 0, weighted = 0 \<rparr>
         else
           let user_vector = map (\<lambda>skill_id. dict_get user_skills skill_id 0) all_skills;
               job_vector = map (\<lambda>skill_id. dict_get job_skills skill_id 0) all_skills;
               cosine_sim = cosine_similarity user_vector job_vector
           in case foldl (weighted_step user_skills job_skills) (0, 0, 0) job_skill_ids of
                (weighted_score, total_weight, technical_bonus) \<Rightarrow>
                  let weighted_sim0 = (if total_weight > 0 then weighted_score / total_weight
                                       else 0);
                      weighted_sim = (if total_weight > 0
                                      then min 1 (weighted_sim0 + technical_bonus / total_weight)
                                      else weighted_sim0);
                      ov = jac * (2 / 10) + cosine_sim * (3 / 10) + weighted_sim * (5 / 10)
                  in \<lparr> overall = ov, jaccard = jac, cosine = cosine_sim,
                       weighted = weighted_sim \<rparr>)"

subsection \<open>\_analyze\_skill\_gaps\<close>

record 'k gap_analysis =
  matching_skills :: "'k list"
  missing_skills :: "'k list"
  coverage :: real
  total_required :: nat
  total_matching :: nat
  total_missing :: nat

definition analyze_skill_gaps :: "('k, real) dict \<Rightarrow> ('k, real) dict \<Rightarrow> 'k gap_analysis" where
  "analyze_skill_gaps user_skills job_skills =
     (let user_skill_ids = remdups (keys user_skills);
          job_skill_ids = remdups (keys job_skills);
          matching = intersection user_skill_ids job_skill_ids;
          missing = difference job_skill_ids user_skill_ids;
          cov = (if job_skill_ids \<noteq> []
                 then real (length matching) / real (length job_skill_ids) else 0)
      in \<lparr> matching_skills = matching, missing_skills = missing, coverage = cov,
           total_required = length job_skill_ids, total_matching = length matching,
           total_missing = length missing \<rparr>)"

subsection \<open>match\_user\_to\_jobs and get\_job\_matches\<close>

record 'k match =
  job_id :: nat
  job_title :: string
  similarity_score :: real
  jaccard_score :: real
  cosine_score :: real
  weighted_score :: real
  skill_coverage :: real
  match_matching_skills :: "'k list"
  match_missing_skills :: "'k list"
  total_job_skills :: nat
  total_user_skills :: nat

type_synonym rank_key = "nat \<times> real \<times> nat \<times> int"

definition sort_key_of :: "'k match \<Rightarrow> rank_key" where
  "sort_key_of m =
     (let matching_count = length (match_matching_skills m);
          sim = similarity_score m;
          total_job = total_job_skills m
      in (matching_count, sim, total_job, - int (total_user_skills m)))"

text \<open>
  \<open>xs.sort(key=f, reverse=True)\<close>: a stable sort into descending key order; elements with
  equal keys keep the order they had in \<open>xs\<close>.
\<close>

fun insort_reverse :: "('a \<Rightarrow> 'b::linorder) \<Rightarrow> 'a \<Rightarrow> 'a list \<Rightarrow> 'a list" where
  "insort_reverse f x [] = [x]"
| "insort_reverse f x (y # ys) =
     (if f y < f x then x # y # ys else y # insort_reverse f x ys)"

definition sort_reverse :: "('a \<Rightarrow> 'b::linorder) \<Rightarrow> 'a list \<Rightarrow> 'a list" where
  "sort_reverse f xs = foldl (\<lambda>acc x. insort_reverse f x acc) [] xs"

definition match_job :: "(string, real) dict \<Rightarrow> job_data \<Rightarrow> string match list" where
  "match_job user_skills job =
     (let job_skills = jd_skills job;
          similarity_scores = calculate_similarity user_skills job_skills;
          gaps = analyze_skill_gaps user_skills job_skills;
          matching_skill_count = length (matching_skills gaps)
      in if matching_skill_count < 2 then []
         else [\<lparr> job_id = jd_id job, job_title = jd_title job,
                 similarity_score = overall similarity_scores,
                 jaccard_score = jaccard similarity_scores,
                 cosine_score = cosine similarity_scores,
                 weighted_score = weighted similarity_scores,
                 skill_coverage = coverage gaps,
                 match_matching_skills = matching_skills gaps,
                 match_missing_skills = missing_skills gaps,
                 total_job_skills = length job_skills,
                 total_user_skills = length user_skills \<rparr>])"

text \<open>
  \<open>match_user_to_jobs\<close> on the user's normalized skills and the jobs with their
  normalized skills (the results of the two loaders above); \<open>limit\<close> is not negative.
\<close>

definition match_user_to_jobs ::
  "(string, real) dict \<Rightarrow> job_data list \<Rightarrow> nat \<Rightarrow> string match list" where
  "match_user_to_jobs user_skills jobs_with_skills limit =
     (if user_skills = [] then []
      else if jobs_with_skills = [] then []
      else take limit (sort_reverse sort_key_of (concat (map (match_job user_skills) jobs_with_skills))))"

definition get_user_skill_count :: "user_skills_emsi_row list \<Rightarrow> nat \<Rightarrow> nat" where
  "get_user_skill_count user_skills_emsi user_id =
     length (filter (\<lambda>row. use_user_id row = user_id) user_skills_emsi)"

definition stored_match ::
  "job_posting_row list \<Rightarrow> user_skills_emsi_row list \<Rightarrow> nat \<Rightarrow> job_match_row
     \<Rightarrow> json_id match list" where
  "stored_match job_postings user_skills_emsi user_id row =
     (case find (\<lambda>jp. jp_id jp = jm_job_id row) job_postings of
        None \<Rightarrow> []
      | Some job \<Rightarrow>
          [\<lparr> job_id = jm_job_id row, job_title = jp_title job,
             similarity_score = or_num (jm_similarity_score row) (or_num (jm_alignment_score row) 0),
             jaccard_score = or_num (jm_jaccard_score row) 0,
             cosine_score = or_num (jm_cosine_score row) 0,
             weighted_score = or_num (jm_weighted_score row) 0,
             skill_coverage = or_num (jm_skill_coverage row) 0,
             match_matching_skills =
               or_list (jm_matching_skills row) (or_list (jm_matched_skills row) []),
             match_missing_skills = or_list (jm_missing_skills row) [],
             total_job_skills =
               length (or_list (jm_missing_skills row) [])
               + length (or_list (jm_matching_skills row) (or_list (jm_matched_skills row) [])),
             total_user_skills = get_user_skill_count user_skills_emsi user_id \<rparr>])"

definition get_job_matches ::
  "job_match_row list \<Rightarrow> job_posting_row list \<Rightarrow> user_skills_emsi_row list \<Rightarrow> nat \<Rightarrow> nat
     \<Rightarrow> json_id match list" where
  "get_job_matches job_matches job_postings user_skills_emsi user_id limit =
     (let matches = filter (\<lambda>row. jm_user_id row = user_id) job_matches;
          result = concat (map (stored_match job_postings user_skills_emsi user_id) matches)
      in take limit (sort_reverse sort_key_of result))"

subsection \<open>calculate\_skill\_gaps\_dynamic\<close>

record gap_info =
  gi_skill_id :: string
  gi_skill_name :: string
  gi_skill_type :: string
  gi_gap_type :: string
  gi_importance :: real
  gi_user_proficiency :: real
  gi_required_proficiency :: real
  gi_priority :: string
  gi_estimated_learning_time :: nat

record gap_report =
  gr_job_id :: nat
  gr_user_id :: nat
  gr_similarity_score :: real
  gr_skill_coverage :: real
  gr_gaps_by_category :: "(string, gap_info list) dict"
  gr_total_gaps :: nat
  gr_high_priority_gaps :: nat
  gr_medium_priority_gaps :: nat
  gr_low_priority_gaps :: nat

definition estimate_simple_learning_time :: "string \<Rightarrow> nat" where
  "estimate_simple_learning_time skill_type = (if lower skill_type = ''technical'' then 40 else 20)"

text \<open>
  One pass of the loop over the missing skill ids; the accumulator holds
  \<open>gaps_by_category\<close> and the three counters. The learning resources (a search link) are
  left out of \<open>gap_info\<close>.
\<close>

definition dynamic_gap_step ::
  "emsi_skills_row list \<Rightarrow> (string, real) dict
     \<Rightarrow> (string, gap_info list) dict \<times> nat \<times> nat \<times> nat \<Rightarrow> string
     \<Rightarrow> (string, gap_info list) dict \<times> nat \<times> nat \<times> nat" where
  "dynamic_gap_step emsi_skills job_skill_dict acc skill_id =
     (case acc of (gaps_by_category, high_count, medium_count, low_count) \<Rightarrow>
        (case find (\<lambda>row. es_skill_id row = skill_id) emsi_skills of
           None \<Rightarrow> acc
         | Some skill_result \<Rightarrow>
             let importance = dict_item job_skill_dict skill_id;
                 prio = (if importance \<ge> 1 then ''high''
                         else if importance \<ge> 7 / 10 then ''medium'' else ''low'');
                 gap = \<lparr> gi_skill_id = skill_id, gi_skill_name = es_skill_name skill_result,
                         gi_skill_type = es_skill_type skill_result, gi_gap_type = ''missing'',
                         gi_importance = importance, gi_user_proficiency = 0,
                         gi_required_proficiency = 7 / 10, gi_priority = prio,
                         gi_estimated_learning_time =
                           estimate_simple_learning_time (es_skill_type skill_result) \<rparr>;
                 category = es_skill_type skill_result
             in (dict_set gaps_by_category category (dict_get gaps_by_category category [] @ [gap]),
                 if importance \<ge> 1 then high_count + 1 else high_count,
                 if importance \<ge> 1 then medium_count
                 else if importance \<ge> 7 / 10 then medium_count + 1 else medium_count,
                 if importance \<ge> 1 then low_count
                 else if importance \<ge> 7 / 10 then low_count else low_count + 1)))"

definition job_skill_dict_of :: "job_skills_emsi_row list \<Rightarrow> nat \<Rightarrow> (string, real) dict" where
  "job_skill_dict_of job_skills_emsi job =
     foldl (\<lambda>d skill. dict_set d (jse_emsi_skill_id skill) (or_num (jse_importance skill) 1)) []
       (filter (\<lambda>skill. jse_job_id skill = job) job_skills_emsi)"

definition calculate_skill_gaps_dynamic ::
  "user_skills_emsi_row list \<Rightarrow> job_skills_emsi_row list \<Rightarrow> emsi_skills_row list \<Rightarrow> nat \<Rightarrow> nat
     \<Rightarrow> gap_report" where
  "calculate_skill_gaps_dynamic user_skills_emsi job_skills_emsi emsi_skills user_id job =
     (let user_skills = get_user_skills user_skills_emsi user_id;
          user_skill_ids = remdups (keys user_skills);
          job_skill_dict = job_skill_dict_of job_skills_emsi job;
          job_skill_ids = remdups (keys job_skill_dict);
          similarity_scores = calculate_similarity user_skills job_skill_dict;
          gaps = analyze_skill_gaps user_skills job_skill_dict;
          missing_skill_ids = difference job_skill_ids user_skill_ids
      in case foldl (dynamic_gap_step emsi_skills job_skill_dict) ([], 0, 0, 0) missing_skill_ids of
           (gaps_by_category, high_count, medium_count, low_count) \<Rightarrow>
             \<lparr> gr_job_id = job, gr_user_id = user_id,
               gr_similarity_score = overall similarity_scores,
               gr_skill_coverage = coverage gaps,
               gr_gaps_by_category = filter (\<lambda>kv. snd kv \<noteq> []) gaps_by_category,
               gr_total_gaps = length missing_skill_ids,
               gr_high_priority_gaps = high_count,
               gr_medium_priority_gaps = medium_count,
               gr_low_priority_gaps = low_count \<rparr>)"


section \<open>services/tfidf\_matching.py\<close>

datatype error = StoreError

datatype skill_type = TECHNICAL | SOFT | DOMAIN | CERTIFICATION

fun skill_type_value :: "skill_type \<Rightarrow> string" where
  "skill_type_value TECHNICAL = ''TECHNICAL''"
| "skill_type_value SOFT = ''SOFT''"
| "skill_type_value DOMAIN = ''DOMAIN''"
| "skill_type_value CERTIFICATION = ''CERTIFICATION''"

record user_skill_row =
  us_user_id :: nat
  us_skill_id :: nat
  us_proficiency_level :: real
  us_confidence :: real

record job_skill_v2_row =
  jsv_job_id :: nat
  jsv_skill_id :: nat
  jsv_importance :: real

record skill_v2_row =
  sv_id :: nat
  sv_name :: string
  sv_skill_type :: skill_type

subsection \<open>\_get\_skill\_variations\<close>

definition skill_mappings :: "(string \<times> string list) list" where
  "skill_mappings =
   [(''python (programming language)'', [''python'', ''python3'', ''python2'', ''py'']),
    (''javascript (programming language)'', [''javascript'', ''js'', ''ecmascript'']),
    (''javascript'', [''js'', ''ecmascript'', ''javascript'']),
    (''node.js'', [''nodejs'', ''node'', ''node js'']),
    (''react.js'', [''react'', ''reactjs'']),
    (''react'', [''reactjs'', ''react.js'']),
    (''typescript'', [''ts'', ''typescript'']),
    (''postgresql'', [''postgres'', ''psql'']),
    (''docker container'', [''docker'', ''containerization'']),
    (''docker'', [''containerization'', ''docker container'']),
    (''git flow'', [''git'', ''version control'']),
    (''git'', [''version control'', ''git flow'']),
    (''aws'', [''amazon web services'', ''amazon aws'']),
    (''css'', [''cascading style sheets'', ''stylesheets'']),
    (''html'', [''hypertext markup language'', ''markup'']),
    (''rest api'', [''restful api'', ''rest'', ''api'']),
    (''graphql'', [''graph ql'', ''query language'']),
    (''machine learning'', [''ml'', ''artificial intelligence'', ''ai'']),
    (''artificial intelligence'', [''ai'', ''machine learning'', ''ml'']),
    (''data science'', [''data analysis'', ''analytics'']),
    (''sql'', [''structured query language'', ''database'']),
    (''nosql'', [''non-relational database'', ''mongodb'']),
    (''mongodb'', [''mongo'', ''nosql'']),
    (''kubernetes'', [''k8s'', ''container orchestration'']),
    (''devops'', [''dev ops'', ''operations'']),
    (''ci/cd'', [''continuous integration'', ''continuous deployment'']),
    (''agile'', [''scrum'', ''agile methodology'']),
    (''scrum'', [''agile'', ''agile methodology''])]"

definition add_reverse_mapping :: "string \<Rightarrow> string list \<Rightarrow> string \<times> string list \<Rightarrow> string list" where
  "add_reverse_mapping skill_name variations item =
     (if skill_name \<in> set (snd item) \<and> fst item \<notin> set variations
      then variations @ [fst item] else variations)"

definition get_skill_variations :: "string \<Rightarrow> string list" where
  "get_skill_variations skill_name =
     (let direct = [skill_name] @ (case map_of skill_mappings skill_name of
                                     None \<Rightarrow> [] | Some vs \<Rightarrow> vs);
          variations = foldl (add_reverse_mapping skill_name) direct skill_mappings
      in remdups variations)"

subsection \<open>\_create\_job\_skill\_documents and \_create\_user\_vector\<close>

text \<open>\<open>py_int x\<close> is Python's \<open>int(x)\<close> on a float: truncation towards zero.\<close>

definition py_int :: "real \<Rightarrow> int" where
  "py_int x = (if 0 \<le> x then \<lfloor>x\<rfloor> else \<lceil>x\<rceil>)"

text \<open>
  The repetition count \<open>max(1, int(weight * 5))\<close>, which both document builders compute
  in line.
\<close>

definition repetitions :: "real \<Rightarrow> nat" where
  "repetitions weight = nat (max 1 (py_int (weight * 5)))"

text \<open>
  The repetition count as the specification words it, for comparison with the code:
  \<open>max(1, round(weight * 5))\<close>, rounding to the nearest integer.
\<close>

definition spec_repetitions :: "real \<Rightarrow> nat" where
  "spec_repetitions weight = nat (max 1 (round (weight * 5)))"

fun join :: "string \<Rightarrow> string list \<Rightarrow> string" where
  "join sep [] = []"
| "join sep [x] = x"
| "join sep (x # y # ys) = x @ sep @ join sep (y # ys)"

definition job_skill_names :: "skill_v2_row list \<Rightarrow> job_skill_v2_row \<Rightarrow> string list" where
  "job_skill_names skills_v2 skill_rel =
     (case find (\<lambda>skill. sv_id skill = jsv_skill_id skill_rel) skills_v2 of
        None \<Rightarrow> []
      | Some skill \<Rightarrow>
          let importance = or_num (Some (jsv_importance skill_rel)) 1;
              skill_variations = get_skill_variations (lower (sv_name skill))
          in concat (map (\<lambda>variation. replicate (repetitions importance) variation)
                       skill_variations))"

definition job_skill_weight ::
  "skill_v2_row list \<Rightarrow> (nat, real) dict \<Rightarrow> job_skill_v2_row \<Rightarrow> (nat, real) dict" where
  "job_skill_weight skills_v2 skill_weights skill_rel =
     (case find (\<lambda>skill. sv_id skill = jsv_skill_id skill_rel) skills_v2 of
        None \<Rightarrow> skill_weights
      | Some skill \<Rightarrow> dict_set skill_weights (sv_id skill)
                        (or_num (Some (jsv_importance skill_rel)) 1))"

record job_document =
  doc_id :: nat
  doc_title :: string
  doc_skill_names :: "string list"
  doc_skill_text :: string
  doc_skill_weights :: "(nat, real) dict"

text \<open>
  \<open>doc_skill_names\<close> is the local list \<open>skill_names\<close> of the source, kept beside the
  text it is joined into.
\<close>

definition create_job_skill_documents ::
  "job_posting_row list \<Rightarrow> job_skill_v2_row list \<Rightarrow> skill_v2_row list \<Rightarrow> job_document list" where
  "create_job_skill_documents job_postings job_skills_v2 skills_v2 =
     (let jobs = filter (\<lambda>jp. jp_is_active jp
                           \<and> list_ex (\<lambda>js. jsv_job_id js = jp_id jp) job_skills_v2)
                   job_postings
      in map (\<lambda>job.
           let job_skills = filter (\<lambda>js. jsv_job_id js = jp_id job) job_skills_v2;
               skill_names = concat (map (job_skill_names skills_v2) job_skills)
           in \<lparr> doc_id = jp_id job, doc_title = jp_title job,
                doc_skill_names = skill_names,
                doc_skill_text = join '' '' skill_names,
                doc_skill_weights = foldl (job_skill_weight skills_v2) [] job_skills \<rparr>) jobs)"

definition user_skill_names :: "skill_v2_row list \<Rightarrow> user_skill_row \<Rightarrow> string list" where
  "user_skill_names skills_v2 user_skill =
     (case find (\<lambda>skill. sv_id skill = us_skill_id user_skill) skills_v2 of
        None \<Rightarrow> []
      | Some skill \<Rightarrow>
          let weight = us_proficiency_level user_skill * us_confidence user_skill;
              skill_variations = get_skill_variations (lower (sv_name skill))
          in concat (map (\<lambda>variation. replicate (repetitions weight) variation)
                       skill_variations))"

text \<open>
  The user's document of \<open>_create_user_vector\<close>: \<open>None\<close> where the source returns \<open>None\<close>
  before it reaches the vectorizer.
\<close>

definition create_user_text ::
  "user_skill_row list \<Rightarrow> skill_v2_row list \<Rightarrow> nat \<Rightarrow> string option" where
  "create_user_text user_skills_tbl skills_v2 user_id =
     (let user_skills = filter (\<lambda>us. us_user_id us = user_id) user_skills_tbl in
      if user_skills = [] then None
      else let user_text = join '' '' (concat (map (user_skill_names skills_v2) user_skills))
           in if user_text = [] then None else Some user_text)"

subsection \<open>\_compute\_job\_gap\_analysis\<close>

record tfidf_gap =
  tg_coverage :: real
  tg_jaccard_score :: real
  tg_weighted_score :: real
  tg_matching_skills :: "nat list"
  tg_missing_skills :: "nat list"
  tg_total_required :: nat
  tg_total_user_skills :: nat

definition tfidf_weighted_step ::
  "(nat, real) dict \<Rightarrow> (nat, real) dict \<Rightarrow> real \<times> real \<Rightarrow> nat \<Rightarrow> real \<times> real" where
  "tfidf_weighted_step user_skills job_skills acc skill_id =
     (case acc of (weighted_acc, total_weight) \<Rightarrow>
        let job_importance = dict_item job_skills skill_id;
            user_proficiency = dict_get user_skills skill_id 0
        in (weighted_acc + user_proficiency * job_importance, total_weight + job_importance))"

text \<open>
  The two queries either raise or return the rows of the user and of the job; on an
  exception the source's handler returns the all-zero report.
\<close>

definition compute_job_gap_analysis ::
  "error + user_skill_row list \<Rightarrow> error + job_skill_v2_row list \<Rightarrow> nat \<Rightarrow> nat \<Rightarrow> tfidf_gap" where
  "compute_job_gap_analysis user_skills_tbl job_skills_v2 user_id job =
     (case (user_skills_tbl, job_skills_v2) of
        (Inr us_rows, Inr js_rows) \<Rightarrow>
          let user_skills = foldl (\<lambda>d r. dict_set d (us_skill_id r) (us_proficiency_level r)) []
                              (filter (\<lambda>r. us_user_id r = user_id) us_rows);
              job_skills = foldl (\<lambda>d r. dict_set d (jsv_skill_id r)
                                           (or_num (Some (jsv_importance r)) 1)) []
                             (filter (\<lambda>r. jsv_job_id r = job) js_rows);
              user_skill_ids = remdups (keys user_skills);
              job_skill_ids = remdups (keys job_skills);
              matching = intersection user_skill_ids job_skill_ids;
              missing = difference job_skill_ids user_skill_ids;
              cov = (if job_skill_ids \<noteq> []
                     then real (length matching) / real (length job_skill_ids) else 0);
              un = union_ids user_skill_ids job_skill_ids;
              jac = (if un \<noteq> [] then real (length matching) / real (length un) else 0)
          in (case foldl (tfidf_weighted_step user_skills job_skills) (0, 0) job_skill_ids of
                (weighted_acc, total_weight) \<Rightarrow>
                  \<lparr> tg_coverage = cov, tg_jaccard_score = jac,
                    tg_weighted_score = (if total_weight > 0 then weighted_acc / total_weight
                                         else 0),
                    tg_matching_skills = matching, tg_missing_skills = missing,
                    tg_total_required = length job_skill_ids,
                    tg_total_user_skills = length user_skill_ids \<rparr>)
      | _ \<Rightarrow> \<lparr> tg_coverage = 0, tg_jaccard_score = 0, tg_weighted_score = 0,
              tg_matching_skills = [], tg_missing_skills = [], tg_total_required = 0,
              tg_total_user_skills = 0 \<rparr>)"

subsection \<open>compute\_matches\<close>

text \<open>
  The TF-IDF vectorizer and its cosine similarities are library calls: \<open>similarities\<close> is
  the list they return, one number per job document, in the documents' order.
\<close>

definition tfidf_match ::
  "user_skill_row list \<Rightarrow> job_skill_v2_row list \<Rightarrow> nat \<Rightarrow> job_document \<times> real
     \<Rightarrow> nat match list" where
  "tfidf_match user_skills_tbl job_skills_v2 user_id item =
     (case item of (job_doc, similarity) \<Rightarrow>
        if similarity > 1 / 100
        then let gaps = compute_job_gap_analysis (Inr user_skills_tbl) (Inr job_skills_v2)
                          user_id (doc_id job_doc)
             in [\<lparr> job_id = doc_id job_doc, job_title = doc_title job_doc,
                    similarity_score = similarity,
                    jaccard_score = tg_jaccard_score gaps,
                    cosine_score = similarity,
                    weighted_score = tg_weighted_score gaps,
                    skill_coverage = tg_coverage gaps,
                    match_matching_skills = tg_matching_skills gaps,
                    match_missing_skills = tg_missing_skills gaps,
                    total_job_skills = tg_total_required gaps,
                    total_user_skills = tg_total_user_skills gaps \<rparr>]
        else [])"

definition compute_matches ::
  "job_posting_row list \<Rightarrow> job_skill_v2_row list \<Rightarrow> skill_v2_row list \<Rightarrow> user_skill_row list
     \<Rightarrow> real list \<Rightarrow> nat \<Rightarrow> nat \<Rightarrow> nat match list" where
  "compute_matches job_postings job_skills_v2 skills_v2 user_skills_tbl similarities user_id limit =
     (let job_documents = create_job_skill_documents job_postings job_skills_v2 skills_v2 in
      if job_documents = [] then []
      else case create_user_text user_skills_tbl skills_v2 user_id of
             None \<Rightarrow> []
           | Some user_text \<Rightarrow>
               take limit (sort_reverse similarity_score
                 (concat (map (tfidf_match user_skills_tbl job_skills_v2 user_id)
                            (zip job_documents similarities)))))"

section \<open>services/skill\_alignment\_service.py\<close>

record alignment_user_skill =
  au_name :: string
  au_proficiency :: real
  au_confidence :: real

record industry_skill =
  ind_name :: string
  ind_importance :: real

definition alignment_step ::
  "(string, alignment_user_skill) dict \<Rightarrow> real \<times> real \<times> nat \<Rightarrow> string \<times> industry_skill
     \<Rightarrow> real \<times> real \<times> nat" where
  "alignment_step user_skills acc item =
     (case acc of (total_score, max_possible_score, matched_skills) \<Rightarrow>
        let skill_id = fst item;
            skill_info = snd item;
            importance = ind_importance skill_info;
            max_possible = max_possible_score + importance
        in if skill_id \<in> set (keys user_skills)
           then let user_skill = dict_item user_skills skill_id;
                    proficiency = au_proficiency user_skill;
                    confidence = au_confidence user_skill;
                    boosted = (if is_technical_skill (ind_name skill_info)
                               then importance * (12 / 10) else importance);
                    score = proficiency * boosted * confidence
                in (total_score + score, max_possible, matched_skills + 1)
           else (total_score, max_possible, matched_skills))"

definition calculate_industry_alignment ::
  "(string, alignment_user_skill) dict \<Rightarrow> (string, industry_skill) dict \<Rightarrow> real" where
  "calculate_industry_alignment user_skills industry_skills =
     (case foldl (alignment_step user_skills) (0, 0, 0) industry_skills of
        (total_score, max_possible_score, matched_skills) \<Rightarrow>
          let alignment0 = (if max_possible_score > 0 then total_score / max_possible_score
                            else 0);
              alignment = (if matched_skills < 3 then alignment0 * (real matched_skills / 3)
                           else alignment0)
          in min 1 alignment)"

text \<open>
  The alignment as the specification words it, for comparison with the code: a technical
  skill's importance is multiplied by 1.2 before the sums, the denominator's included.
\<close>

definition spec_importance :: "industry_skill \<Rightarrow> real" where
  "spec_importance skill_info =
     (if is_technical_skill (ind_name skill_info) then ind_importance skill_info * (12 / 10)
      else ind_importance skill_info)"

definition spec_industry_alignment ::
  "(string, alignment_user_skill) dict \<Rightarrow> (string, industry_skill) dict \<Rightarrow> real" where
  "spec_industry_alignment user_skills industry_skills =
     (let matched = filter (\<lambda>item. fst item \<in> set (keys user_skills)) industry_skills;
          numerator = sum_list (map (\<lambda>item. au_proficiency (dict_item user_skills (fst item))
                                      * spec_importance (snd item)
                                      * au_confidence (dict_item user_skills (fst item))) matched);
          denominator = sum_list (map (\<lambda>item. spec_importance (snd item)) industry_skills);
          quotient = (if denominator = 0 then 0 else numerator / denominator);
          damped = (if length matched < 3 then quotient * (real (length matched) / 3)
                    else quotient)
      in max 0 (min 1 damped))"

text \<open>
  The other reading of the specification's sentence: the factor 1.2 enters the
  denominator's sum only, the numerator uses the importance as given.
\<close>

definition spec_industry_alignment_denominator_only ::
  "(string, alignment_user_skill) dict \<Rightarrow> (string, industry_skill) dict \<Rightarrow> real" where
  "spec_industry_alignment_denominator_only user_skills industry_skills =
     (let matched = filter (\<lambda>item. fst item \<in> set (keys user_skills)) industry_skills;
          numerator = sum_list (map (\<lambda>item. au_proficiency (dict_item user_skills (fst item))
                                      * ind_importance (snd item)
                                      * au_confidence (dict_item user_skills (fst item))) matched);
          denominator = sum_list (map (\<lambda>item. spec_importance (snd item)) industry_skills);
          quotient = (if denominator = 0 then 0 else numerator / denominator);
          damped = (if length matched < 3 then quotient * (real (length matched) / 3)
                    else quotient)
      in max 0 (min 1 damped))"

section \<open>Saving matches: the session\<close>

text \<open>
  The tables the matchers write, seen through a session: \<open>committed\<close> is the store,
  \<open>pending\<close> the open transaction's view of it. A commit makes the view the store, a
  rollback drops the view. Deleting a match row deletes its skill gaps
  (\<open>ON DELETE CASCADE\<close>). Each store operation of a save can raise: \<open>faults\<close> says which.
\<close>

record skill_gap_row =
  sg_match_id :: nat
  sg_skill_id :: nat
  sg_gap_type :: string
  sg_importance :: real
  sg_user_proficiency :: real
  sg_required_proficiency :: real
  sg_priority :: string
  sg_estimated_learning_time :: nat

record tables =
  job_matches_tbl :: "job_match_row list"
  skill_gaps_tbl :: "skill_gap_row list"

record session =
  committed :: tables
  pending :: tables
  next_match_id :: nat

datatype db_op = Delete | Flush nat | Commit

type_synonym faults = "db_op \<Rightarrow> bool"

definition delete_user_matches :: "nat \<Rightarrow> tables \<Rightarrow> tables" where
  "delete_user_matches user_id t =
     (let gone = map jm_id (filter (\<lambda>row. jm_user_id row = user_id) (job_matches_tbl t))
      in \<lparr> job_matches_tbl = filter (\<lambda>row. jm_user_id row \<noteq> user_id) (job_matches_tbl t),
           skill_gaps_tbl = filter (\<lambda>gap. sg_match_id gap \<notin> set gone) (skill_gaps_tbl t) \<rparr>)"

definition db_delete :: "faults \<Rightarrow> nat \<Rightarrow> session \<Rightarrow> error + session" where
  "db_delete f user_id s =
     (if f Delete then Inl StoreError
      else Inr (s\<lparr> pending := delete_user_matches user_id (pending s) \<rparr>))"

text \<open>\<open>db.add(job_match); db.flush()\<close> for the \<open>i\<close>-th match: the row gets its id.\<close>

definition db_add_flush :: "faults \<Rightarrow> nat \<Rightarrow> job_match_row \<Rightarrow> session \<Rightarrow> error + session \<times> nat" where
  "db_add_flush f i row s =
     (if f (Flush i) then Inl StoreError
      else let new_id = next_match_id s;
               t = pending s
           in Inr (s\<lparr> pending := t\<lparr> job_matches_tbl := job_matches_tbl t @ [row\<lparr> jm_id := new_id \<rparr>] \<rparr>,
                      next_match_id := Suc new_id \<rparr>, new_id))"

definition db_add_gap :: "skill_gap_row \<Rightarrow> session \<Rightarrow> session" where
  "db_add_gap gap s =
     (let t = pending s in s\<lparr> pending := t\<lparr> skill_gaps_tbl := skill_gaps_tbl t @ [gap] \<rparr> \<rparr>)"

definition db_commit :: "faults \<Rightarrow> session \<Rightarrow> error + session" where
  "db_commit f s = (if f Commit then Inl StoreError else Inr (s\<lparr> committed := pending s \<rparr>))"

definition db_rollback :: "session \<Rightarrow> session" where
  "db_rollback s = s\<lparr> pending := committed s \<rparr>"

definition new_job_match :: "('k \<Rightarrow> json_id) \<Rightarrow> string \<Rightarrow> nat \<Rightarrow> 'k match \<Rightarrow> job_match_row" where
  "new_job_match to_json algorithm_version user_id match_data =
     \<lparr> jm_id = 0, jm_user_id = user_id, jm_job_id = job_id match_data,
       jm_alignment_score = None,
       jm_similarity_score = Some (similarity_score match_data),
       jm_jaccard_score = Some (jaccard_score match_data),
       jm_cosine_score = Some (cosine_score match_data),
       jm_weighted_score = Some (weighted_score match_data),
       jm_skill_coverage = Some (skill_coverage match_data),
       jm_algorithm_version = algorithm_version,
       jm_missing_skills = Some (map to_json (match_missing_skills match_data)),
       jm_matched_skills = None,
       jm_matching_skills = Some (map to_json (match_matching_skills match_data)) \<rparr>"

text \<open>
  The body of the \<open>try\<close> block that \<open>save_job_matches\<close> and \<open>save_matches\<close> share:
  the loop over the matches from index \<open>i\<close> on. \<open>create_gaps\<close> is the call that follows the
  flush: \<open>_create_skill_gaps\<close> in the TF-IDF matcher, nothing in the pairwise matcher
  (the call is commented out there).
\<close>

fun save_loop ::
  "(nat \<Rightarrow> 'k match \<Rightarrow> session \<Rightarrow> session) \<Rightarrow> ('k \<Rightarrow> json_id) \<Rightarrow> string \<Rightarrow> faults \<Rightarrow> nat \<Rightarrow> nat
     \<Rightarrow> 'k match list \<Rightarrow> session \<Rightarrow> nat \<Rightarrow> error + session \<times> nat" where
  "save_loop create_gaps to_json version f user_id i [] s saved_count = Inr (s, saved_count)"
| "save_loop create_gaps to_json version f user_id i (match_data # rest) s saved_count =
     (case db_add_flush f i (new_job_match to_json version user_id match_data) s of
        Inl e \<Rightarrow> Inl e
      | Inr (s', match_id) \<Rightarrow>
          save_loop create_gaps to_json version f user_id (Suc i) rest
            (create_gaps match_id match_data s') (saved_count + 1))"

definition save_body ::
  "(nat \<Rightarrow> 'k match \<Rightarrow> session \<Rightarrow> session) \<Rightarrow> ('k \<Rightarrow> json_id) \<Rightarrow> string \<Rightarrow> faults \<Rightarrow> nat
     \<Rightarrow> 'k match list \<Rightarrow> session \<Rightarrow> error + session \<times> nat" where
  "save_body create_gaps to_json version f user_id matches s =
     (case db_delete f user_id s of
        Inl e \<Rightarrow> Inl e
      | Inr s1 \<Rightarrow>
          (case save_loop create_gaps to_json version f user_id 0 matches s1 0 of
             Inl e \<Rightarrow> Inl e
           | Inr (s2, saved_count) \<Rightarrow>
               (case db_commit f s2 of
                  Inl e \<Rightarrow> Inl e
                | Inr s3 \<Rightarrow> Inr (s3, saved_count))))"

text \<open>
  The handler: on an exception the session is rolled back and 0 returned. No operation
  of the body changes \<open>committed\<close> before the commit, so rolling back the session of the
  moment of the exception gives the rollback of the session at entry.
\<close>

definition save_handled ::
  "(nat \<Rightarrow> 'k match \<Rightarrow> session \<Rightarrow> session) \<Rightarrow> ('k \<Rightarrow> json_id) \<Rightarrow> string \<Rightarrow> faults \<Rightarrow> nat
     \<Rightarrow> 'k match list \<Rightarrow> session \<Rightarrow> session \<times> nat" where
  "save_handled create_gaps to_json version f user_id matches s =
     (case save_body create_gaps to_json version f user_id matches s of
        Inl e \<Rightarrow> (db_rollback s, 0)
      | Inr (s', saved_count) \<Rightarrow> (s', saved_count))"

definition save_job_matches :: "faults \<Rightarrow> nat \<Rightarrow> string match list \<Rightarrow> session \<Rightarrow> session \<times> nat" where
  "save_job_matches f user_id matches s =
     save_handled (\<lambda>match_id match_data s'. s') Str ''v1'' f user_id matches s"

subsection \<open>The TF-IDF matcher's \_create\_skill\_gaps and save\_matches\<close>

definition estimate_learning_time :: "skill_v2_row \<Rightarrow> nat" where
  "estimate_learning_time skill =
     (let skill_name = lower (sv_name skill) in
      if skill_type_value (sv_skill_type skill) = ''technical''
      then (if list_ex (\<lambda>tech. str_in tech skill_name) [''python'', ''javascript'', ''java''] then 80
            else if list_ex (\<lambda>tech. str_in tech skill_name) [''react'', ''angular'', ''vue''] then 40
            else if list_ex (\<lambda>tech. str_in tech skill_name) [''sql'', ''html'', ''css''] then 20
            else 30)
      else if skill_type_value (sv_skill_type skill) = ''soft'' then 15
      else 25)"

text \<open>The priority rule of the stored gaps, applied to the constant importance 1.0.\<close>

definition stored_gap_priority :: "real \<Rightarrow> string" where
  "stored_gap_priority importance =
     (if importance \<ge> 8 / 10 then ''high''
      else if importance \<ge> 5 / 10 then ''medium'' else ''low'')"

definition create_skill_gap :: "skill_v2_row list \<Rightarrow> nat \<Rightarrow> session \<Rightarrow> nat \<Rightarrow> session" where
  "create_skill_gap skills_v2 match_id s skill_id =
     (case find (\<lambda>skill. sv_id skill = skill_id) skills_v2 of
        None \<Rightarrow> s
      | Some skill \<Rightarrow>
          let importance = 1
          in db_add_gap \<lparr> sg_match_id = match_id, sg_skill_id = skill_id,
                          sg_gap_type = ''missing'', sg_importance = importance,
                          sg_user_proficiency = 0, sg_required_proficiency = 7 / 10,
                          sg_priority = stored_gap_priority importance,
                          sg_estimated_learning_time = estimate_learning_time skill \<rparr> s)"

definition create_skill_gaps :: "skill_v2_row list \<Rightarrow> nat \<Rightarrow> nat match \<Rightarrow> session \<Rightarrow> session" where
  "create_skill_gaps skills_v2 match_id match_data s =
     foldl (create_skill_gap skills_v2 match_id) s (match_missing_skills match_data)"

definition save_matches ::
  "skill_v2_row list \<Rightarrow> faults \<Rightarrow> nat \<Rightarrow> nat match list \<Rightarrow> session \<Rightarrow> session \<times> nat" where
  "save_matches skills_v2 f user_id matches s =
     save_handled (create_skill_gaps skills_v2) Num ''tfidf_v1'' f user_id matches s"

section \<open>services/match\_scheduler.py\<close>

text \<open>
  The read-only tables, and for each user what goes wrong during the run:
  \<open>uf_invalidate\<close>, \<open>uf_vocabulary\<close> and \<open>uf_compute\<close> say whether a store access raises in
  \<open>_invalidate_old_matches\<close>, in the constructor of the TF-IDF matcher (which builds the
  skill vocabulary and re-raises) and in the body of \<open>compute_matches\<close> or
  \<open>match_user_to_jobs\<close>; \<open>uf_save\<close> lists the failing operations of the save.
  \<open>similarities\<close> gives the TF-IDF similarities the library returns for a user.
\<close>

record store =
  st_user_skills_emsi :: "user_skills_emsi_row list"
  st_job_postings :: "job_posting_row list"
  st_job_skills_emsi :: "job_skills_emsi_row list"
  st_user_skills :: "user_skill_row list"
  st_job_skills_v2 :: "job_skill_v2_row list"
  st_skills_v2 :: "skill_v2_row list"

record user_faults =
  uf_invalidate :: bool
  uf_vocabulary :: bool
  uf_compute :: bool
  uf_save :: faults

record stats =
  total_users :: nat
  processed_users :: nat
  failed_users :: nat
  total_matches :: nat

text \<open>\<open>_invalidate_old_matches\<close>: its handler logs an exception and returns.\<close>

definition invalidate_old_matches :: "bool \<Rightarrow> nat \<Rightarrow> session \<Rightarrow> session" where
  "invalidate_old_matches raises user_id s =
     (if raises then s else s\<lparr> pending := delete_user_matches user_id (pending s) \<rparr>)"

text \<open>
  The catch-all handler of \<open>compute_matches\<close> and of \<open>match_user_to_jobs\<close>: an exception
  in the body is logged and the empty list returned.
\<close>

definition handled :: "bool \<Rightarrow> 'a list \<Rightarrow> 'a list" where
  "handled raises result = (if raises then [] else result)"

text \<open>The body of the loop's \<open>try\<close> block for one user: the saved count, or an exception.\<close>

definition recompute_user ::
  "store \<Rightarrow> user_faults \<Rightarrow> real list \<Rightarrow> string \<Rightarrow> nat \<Rightarrow> nat \<Rightarrow> session \<Rightarrow> (error + nat) \<times> session" where
  "recompute_user st fl similarities algorithm limit_per_user user_id s =
     (let s1 = invalidate_old_matches (uf_invalidate fl) user_id s in
      if algorithm = ''tfidf''
      then (if uf_vocabulary fl then (Inl StoreError, s1)
            else let matches = handled (uf_compute fl)
                                 (compute_matches (st_job_postings st) (st_job_skills_v2 st)
                                    (st_skills_v2 st) (st_user_skills st) similarities user_id
                                    limit_per_user);
                     saved = save_matches (st_skills_v2 st) (uf_save fl) user_id matches s1
                 in (Inr (snd saved), fst saved))
      else let matches = handled (uf_compute fl)
                           (match_user_to_jobs (get_user_skills (st_user_skills_emsi st) user_id)
                              (get_jobs_with_skills (st_job_postings st) (st_job_skills_emsi st))
                              limit_per_user);
               saved = save_job_matches (uf_save fl) user_id matches s1
           in (Inr (snd saved), fst saved))"

fun recompute_loop ::
  "store \<Rightarrow> (nat \<Rightarrow> user_faults) \<Rightarrow> (nat \<Rightarrow> real list) \<Rightarrow> string \<Rightarrow> nat \<Rightarrow> nat list \<Rightarrow> stats \<Rightarrow> session
     \<Rightarrow> stats \<times> session" where
  "recompute_loop st faults_of similarities algorithm limit_per_user [] stats s = (stats, s)"
| "recompute_loop st faults_of similarities algorithm limit_per_user (user_id # rest) stats s =
     (case recompute_user st (faults_of user_id) (similarities user_id) algorithm limit_per_user
             user_id s of
        (Inr saved_count, s') \<Rightarrow>
          recompute_loop st faults_of similarities algorithm limit_per_user rest
            (stats\<lparr> total_matches := total_matches stats + saved_count,
                    processed_users := processed_users stats + 1 \<rparr>) s'
      | (Inl e, s') \<Rightarrow>
          recompute_loop st faults_of similarities algorithm limit_per_user rest
            (stats\<lparr> failed_users := failed_users stats + 1 \<rparr>) s')"

text \<open>
  \<open>recompute_all_matches\<close>: \<open>users_with_skills\<close> is the answer to the query for the users
  with skills, or its exception, on which the outer handler returns the error report.
\<close>

datatype report = Report stats | ErrorReport

definition recompute_all_matches ::
  "store \<Rightarrow> (nat \<Rightarrow> user_faults) \<Rightarrow> (nat \<Rightarrow> real list) \<Rightarrow> error + nat list \<Rightarrow> nat \<Rightarrow> string \<Rightarrow> session
     \<Rightarrow> report \<times> session" where
  "recompute_all_matches st faults_of similarities users_with_skills limit_per_user algorithm s =
     (case users_with_skills of
        Inl e \<Rightarrow> (ErrorReport, s)
      | Inr user_ids \<Rightarrow>
          (case recompute_loop st faults_of similarities algorithm limit_per_user user_ids
                  \<lparr> total_users = length user_ids, processed_users = 0, failed_users = 0,
                    total_matches = 0 \<rparr> s of
             (stats, s') \<Rightarrow> (Report stats, s')))"

section \<open>Example inputs\<close>

definition stored_row_a :: job_match_row where
  "stored_row_a =
     \<lparr> jm_id = 1, jm_user_id = 7, jm_job_id = 100, jm_alignment_score = None,
       jm_similarity_score = Some (1 / 2), jm_jaccard_score = Some (1 / 2),
       jm_cosine_score = Some (1 / 2), jm_weighted_score = Some (1 / 2),
       jm_skill_coverage = Some (2 / 3), jm_algorithm_version = ''v1'',
       jm_missing_skills = Some [Str ''aws''], jm_matched_skills = None,
       jm_matching_skills = Some [Str ''python'', Str ''sql''] \<rparr>"

definition stored_row_b :: job_match_row where
  "stored_row_b = stored_row_a\<lparr> jm_id := 2, jm_job_id := 200 \<rparr>"

definition two_postings :: "job_posting_row list" where
  "two_postings =
     [\<lparr> jp_id = 100, jp_title = ''Data Engineer'', jp_is_active = True \<rparr>,
      \<lparr> jp_id = 200, jp_title = ''Backend Developer'', jp_is_active = True \<rparr>]"

definition candidate :: "nat \<Rightarrow> json_id list \<Rightarrow> real \<Rightarrow> json_id match" where
  "candidate job matching score =
     \<lparr> job_id = job, job_title = ''Engineer'', similarity_score = score, jaccard_score = 0,
       cosine_score = 0, weighted_score = 0, skill_coverage = 0,
       match_matching_skills = matching, match_missing_skills = [],
       total_job_skills = 4, total_user_skills = 5 \<rparr>"

definition example_skills_v2 :: "skill_v2_row list" where
  "example_skills_v2 =
     [\<lparr> sv_id = 10, sv_name = ''Python'', sv_skill_type = TECHNICAL \<rparr>,
      \<lparr> sv_id = 11, sv_name = ''Java'', sv_skill_type = TECHNICAL \<rparr>,
      \<lparr> sv_id = 12, sv_name = ''SQL'', sv_skill_type = TECHNICAL \<rparr>,
      \<lparr> sv_id = 13, sv_name = ''AWS'', sv_skill_type = TECHNICAL \<rparr>,
      \<lparr> sv_id = 14, sv_name = ''Docker'', sv_skill_type = TECHNICAL \<rparr>,
      \<lparr> sv_id = 15, sv_name = ''Negotiation'', sv_skill_type = SOFT \<rparr>]"

definition example_job_skills_v2 :: "job_skill_v2_row list" where
  "example_job_skills_v2 =
     [\<lparr> jsv_job_id = 100, jsv_skill_id = 10, jsv_importance = 1 \<rparr>,
      \<lparr> jsv_job_id = 100, jsv_skill_id = 11, jsv_importance = 1 \<rparr>,
      \<lparr> jsv_job_id = 100, jsv_skill_id = 12, jsv_importance = 1 \<rparr>,
      \<lparr> jsv_job_id = 100, jsv_skill_id = 13, jsv_importance = 1 \<rparr>,
      \<lparr> jsv_job_id = 100, jsv_skill_id = 14, jsv_importance = 1 / 2 \<rparr>,
      \<lparr> jsv_job_id = 200, jsv_skill_id = 15, jsv_importance = 1 \<rparr>]"

definition example_user_skills :: "user_skill_row list" where
  "example_user_skills =
     [\<lparr> us_user_id = 7, us_skill_id = 10, us_proficiency_level = 8 / 10, us_confidence = 1 \<rparr>]"

definition one_skill_user :: "(string, real) dict" where
  "one_skill_user = [(''python'', 8 / 10), (''excel'', 1 / 2)]"

definition five_skill_job :: job_data where
  "five_skill_job =
     \<lparr> jd_id = 100, jd_title = ''Data Engineer'',
       jd_skills = [(''python'', 1), (''java'', 1), (''sql'', 1), (''aws'', 1), (''docker'', 1)] \<rparr>"

definition python_three_quarters :: job_skill_v2_row where
  "python_three_quarters = \<lparr> jsv_job_id = 300, jsv_skill_id = 10, jsv_importance = 3 / 4 \<rparr>"

definition user_python :: user_skill_row where
  "user_python = \<lparr> us_user_id = 7, us_skill_id = 10, us_proficiency_level = 8 / 10,
                    us_confidence = 9 / 10 \<rparr>"

definition scenario_user_skills_emsi :: "user_skills_emsi_row list" where
  "scenario_user_skills_emsi =
     [\<lparr> use_user_id = 7, use_emsi_skill_id = ''KS125LS6N7WP4S6SFTCK'', use_skill_name = ''Python'',
        use_proficiency_level = 8 / 10, use_confidence = 1 \<rparr>,
      \<lparr> use_user_id = 7, use_emsi_skill_id = ''KS440W865GC4VRBW6LJP'', use_skill_name = ''SQL'',
        use_proficiency_level = 6 / 10, use_confidence = 1 \<rparr>]"

definition scenario_job_skills_emsi :: "job_skills_emsi_row list" where
  "scenario_job_skills_emsi =
     [\<lparr> jse_job_id = 100, jse_emsi_skill_id = ''KS125LS6N7WP4S6SFTCK'', jse_skill_name = ''Python'',
        jse_importance = Some 1 \<rparr>,
      \<lparr> jse_job_id = 100, jse_emsi_skill_id = ''KS120FG6YP8PQYYNQY9B'', jse_skill_name = ''AWS'',
        jse_importance = Some 1 \<rparr>,
      \<lparr> jse_job_id = 100, jse_emsi_skill_id = ''KSY4WFI1S164RQUBSPCC'', jse_skill_name = ''Docker'',
        jse_importance = Some (1 / 2) \<rparr>,
      \<lparr> jse_job_id = 200, jse_emsi_skill_id = ''KSY4WFI1S164RQUBSPCC'', jse_skill_name = ''Docker'',
        jse_importance = Some 1 \<rparr>]"

definition scenario_emsi_skills :: "emsi_skills_row list" where
  "scenario_emsi_skills =
     [\<lparr> es_skill_id = ''KS120FG6YP8PQYYNQY9B'', es_skill_name = ''AWS'',
        es_skill_type = ''technical'' \<rparr>,
      \<lparr> es_skill_id = ''KSY4WFI1S164RQUBSPCC'', es_skill_name = ''Docker'',
        es_skill_type = ''technical'' \<rparr>]"


definition empty_session :: session where
  "empty_session =
     \<lparr> committed = \<lparr> job_matches_tbl = [], skill_gaps_tbl = [] \<rparr>,
       pending = \<lparr> job_matches_tbl = [], skill_gaps_tbl = [] \<rparr>, next_match_id = 1 \<rparr>"



definition postgres_user_row :: user_skills_emsi_row where
  "postgres_user_row =
     \<lparr> use_user_id = 7, use_emsi_skill_id = ''KS1'', use_skill_name = ''Postgres'',
       use_proficiency_level = 1 / 2, use_confidence = 1 \<rparr>"

definition postgres_job_row :: job_skills_emsi_row where
  "postgres_job_row =
     \<lparr> jse_job_id = 100, jse_emsi_skill_id = ''KS1'', jse_skill_name = ''Postgres'',
       jse_importance = Some 1 \<rparr>"

definition colliding_user_rows :: "user_skills_emsi_row list" where
  "colliding_user_rows =
     [\<lparr> use_user_id = 7, use_emsi_skill_id = ''KS2'', use_skill_name = ''MySQL'',
        use_proficiency_level = 1 / 2, use_confidence = 1 \<rparr>,
      \<lparr> use_user_id = 7, use_emsi_skill_id = ''KS3'', use_skill_name = ''SQL Server'',
        use_proficiency_level = 7 / 10, use_confidence = 1 \<rparr>,
      \<lparr> use_user_id = 8, use_emsi_skill_id = ''KS4'', use_skill_name = ''sql'',
        use_proficiency_level = 1, use_confidence = 1 \<rparr>]"

text \<open>
  The shape the two normalizing loops share: skip an invalid row, otherwise store the
  row's weight under its key, or the larger of it and the weight already there.
\<close>

definition merge_step ::
  "('r \<Rightarrow> bool) \<Rightarrow> ('r \<Rightarrow> string) \<Rightarrow> ('r \<Rightarrow> real) \<Rightarrow> (string, real) dict \<Rightarrow> 'r \<Rightarrow> (string, real) dict" where
  "merge_step valid key w acc r =
     (if \<not> valid r then acc
      else if key r \<in> set (keys acc)
           then dict_set acc (key r) (max (dict_item acc (key r)) (w r))
           else dict_set acc (key r) (w r))"

fun merge_max :: "real option \<Rightarrow> real list \<Rightarrow> real option" where
  "merge_max v [] = v"
| "merge_max None (w # ws) = merge_max (Some w) ws"
| "merge_max (Some v) (w # ws) = merge_max (Some (max v w)) ws"

definition alignment_user :: "(string, alignment_user_skill) dict" where
  "alignment_user =
     [(''KS1'', \<lparr> au_name = ''Python'', au_proficiency = 1 / 2, au_confidence = 1 \<rparr>),
      (''KS2'', \<lparr> au_name = ''Excel'', au_proficiency = 1 / 2, au_confidence = 1 \<rparr>),
      (''KS3'', \<lparr> au_name = ''Writing'', au_proficiency = 1 / 2, au_confidence = 1 \<rparr>)]"

definition alignment_industry :: "(string, industry_skill) dict" where
  "alignment_industry =
     [(''KS1'', \<lparr> ind_name = ''Python'', ind_importance = 1 \<rparr>),
      (''KS2'', \<lparr> ind_name = ''Excel'', ind_importance = 1 \<rparr>),
      (''KS3'', \<lparr> ind_name = ''Writing'', ind_importance = 1 \<rparr>)]"

definition unrelated_user :: "(string, alignment_user_skill) dict" where
  "unrelated_user =
     [(''KS9'', \<lparr> au_name = ''Welding'', au_proficiency = 1, au_confidence = 1 \<rparr>)]"

text \<open>The sums of the alignment loop, for the statement of its result.\<close>

definition alignment_matched ::
  "(string, alignment_user_skill) dict \<Rightarrow> (string, industry_skill) dict \<Rightarrow> (string \<times> industry_skill) list" where
  "alignment_matched user_skills industry_skills =
     filter (\<lambda>item. fst item \<in> set (keys user_skills)) industry_skills"

definition alignment_numerator ::
  "(string, alignment_user_skill) dict \<Rightarrow> (string, industry_skill) dict \<Rightarrow> real" where
  "alignment_numerator user_skills industry_skills =
     sum_list (map (\<lambda>item. au_proficiency (dict_item user_skills (fst item))
                     * (if is_technical_skill (ind_name (snd item))
                        then ind_importance (snd item) * (12 / 10) else ind_importance (snd item))
                     * au_confidence (dict_item user_skills (fst item)))
                (alignment_matched user_skills industry_skills))"

definition alignment_denominator :: "(string, industry_skill) dict \<Rightarrow> real" where
  "alignment_denominator industry_skills =
     sum_list (map (\<lambda>item. ind_importance (snd item)) industry_skills)"






text \<open>A batch of ten users over a store with no rows, and what goes wrong for user 4.\<close>

definition empty_store :: store where
  "empty_store =
     \<lparr> st_user_skills_emsi = [], st_job_postings = [], st_job_skills_emsi = [],
       st_user_skills = [], st_job_skills_v2 = [], st_skills_v2 = [] \<rparr>"

definition no_faults :: user_faults where
  "no_faults = \<lparr> uf_invalidate = False, uf_vocabulary = False, uf_compute = False,
                 uf_save = (\<lambda>op. False) \<rparr>"

text \<open>User 4's skill store access raises while its matches are computed.\<close>

definition skill_store_fault_at_4 :: "nat \<Rightarrow> user_faults" where
  "skill_store_fault_at_4 user_id =
     (if user_id = 4 then no_faults\<lparr> uf_compute := True \<rparr> else no_faults)"

text \<open>The skill vocabulary query raises when the matcher for user 4 is constructed.\<close>

definition vocabulary_fault_at_4 :: "nat \<Rightarrow> user_faults" where
  "vocabulary_fault_at_4 user_id =
     (if user_id = 4 then no_faults\<lparr> uf_vocabulary := True \<rparr> else no_faults)"

text \<open>Every store operation of user 4's save raises.\<close>

definition save_fault_at_4 :: "nat \<Rightarrow> user_faults" where
  "save_fault_at_4 user_id =
     (if user_id = 4 then no_faults\<lparr> uf_save := (\<lambda>op. True) \<rparr> else no_faults)"

definition ten_users :: "nat list" where
  "ten_users = [1, 2, 3, 4, 5, 6, 7, 8, 9, 10]"

text \<open>
  The weighted score in the spec's words: the sums over the job's skills, the bonus over
  the technical ones the user has with a positive weight, and the clamped quotient.
\<close>

definition spec_weighted_numerator :: "(string, real) dict \<Rightarrow> (string, real) dict \<Rightarrow> real" where
  "spec_weighted_numerator user_skills job_skills =
     (\<Sum>s\<in>set (keys job_skills). dict_get user_skills s 0 * dict_item job_skills s)"

definition spec_weighted_denominator :: "(string, real) dict \<Rightarrow> real" where
  "spec_weighted_denominator job_skills = (\<Sum>s\<in>set (keys job_skills). dict_item job_skills s)"

definition spec_technical_bonus :: "(string, real) dict \<Rightarrow> (string, real) dict \<Rightarrow> real" where
  "spec_technical_bonus user_skills job_skills =
     (\<Sum>s\<in>{s \<in> set (keys job_skills). is_technical_skill s \<and> 0 < dict_get user_skills s 0}.
        5 / 10 * dict_get user_skills s 0 * dict_item job_skills s)"

definition spec_weighted :: "(string, real) dict \<Rightarrow> (string, real) dict \<Rightarrow> real" where
  "spec_weighted user_skills job_skills =
     (let denominator = spec_weighted_denominator job_skills in
      if denominator = 0 then 0
      else min 1 (spec_weighted_numerator user_skills job_skills / denominator
                  + spec_technical_bonus user_skills job_skills / denominator))"

text \<open>A user and a job that share a technical and a non-technical skill.\<close>

definition python_excel_user :: "(string, real) dict" where
  "python_excel_user = [(''python'', 1), (''excel'', 1 / 2)]"

definition python_excel_job :: "(string, real) dict" where
  "python_excel_job = [(''python'', 2), (''excel'', 1), (''writing'', 1)]"

section \<open>Dictionaries: lookups and keys after an assignment\<close>

lemma map_of_dict_set: "map_of (dict_set d k v) = (map_of d)(k \<mapsto> v)"
  by (induction d) (auto simp: fun_eq_iff)

lemma keys_dict_set: "set (keys (dict_set d k v)) = insert k (set (keys d))"
proof (induction d)
  case Nil
  then show ?case by (simp add: keys_def)
next
  case (Cons p d)
  obtain k' v' where p: "p = (k', v')" by (cases p)
  have "set (map fst (dict_set d k v)) = insert k (set (map fst d))"
    using Cons.IH by (simp add: keys_def)
  then show ?case by (cases "k' = k") (auto simp: p keys_def)
qed

lemma distinct_dict_set: "distinct (keys d) \<Longrightarrow> distinct (keys (dict_set d k v))"
proof (induction d)
  case Nil
  then show ?case by (simp add: keys_def)
next
  case (Cons p d)
  obtain k' v' where p: "p = (k', v')" by (cases p)
  have "distinct (keys d)" "k' \<notin> set (keys d)" using Cons.prems by (simp_all add: keys_def p)
  then show ?case using Cons.IH keys_dict_set [of d k v] by (auto simp: p keys_def)
qed

lemma in_keys_iff: "k \<in> set (keys d) \<longleftrightarrow> map_of d k \<noteq> None"
  by (simp add: keys_def map_of_eq_None_iff)

lemma keys_foldl_dict_set:
  "set (keys (foldl (\<lambda>d r. dict_set d (k r) (v r)) acc rows)) = set (keys acc) \<union> k ` set rows"
  by (induction rows arbitrary: acc) (auto simp: keys_dict_set)

section \<open>Gap analysis: matched and missing skills partition the job's skills\<close>

lemma set_intersection: "set (intersection a b) = set a \<inter> set b"
  by (auto simp: intersection_def)

lemma set_difference: "set (difference a b) = set a - set b"
  by (auto simp: difference_def)

lemma distinct_intersection: "distinct (intersection a b)"
  by (simp add: intersection_def)

lemma distinct_difference: "distinct (difference a b)"
  by (simp add: difference_def)

lemma length_intersection: "length (intersection a b) = card (set a \<inter> set b)"
  using distinct_card [OF distinct_intersection, of a b] by (simp add: set_intersection)

lemma length_difference: "length (difference a b) = card (set a - set b)"
  using distinct_card [OF distinct_difference, of a b] by (simp add: set_difference)

lemma card_inter_diff: "finite A \<Longrightarrow> card (B \<inter> A) + card (A - B) = card A"
  by (metis Int_commute card_Diff_subset_Int card_mono finite_Int inf_le2 le_add_diff_inverse2 add.commute)

lemma length_matching_missing:
  "length (intersection (remdups u) (remdups j)) + length (difference (remdups j) (remdups u))
     = length (remdups j)"
  using card_inter_diff [of "set j" "set u"]
  by (simp add: length_intersection length_difference length_remdups_card_conv)

text \<open>The facts shared by the two gap analyses, on the key lists.\<close>

lemma partition_facts:
  fixes u j :: "'k list"
  defines "mt \<equiv> intersection (remdups u) (remdups j)"
    and "ms \<equiv> difference (remdups j) (remdups u)"
    and "n \<equiv> length (remdups j)"
  defines "cov \<equiv> (if remdups j \<noteq> [] then real (length mt) / real n else 0)"
  shows "set mt \<inter> set ms = {} \<and> set mt \<union> set ms = set j
       \<and> distinct mt \<and> distinct ms
       \<and> length mt + length ms = n \<and> n = card (set j)
       \<and> 0 \<le> cov \<and> cov \<le> 1
       \<and> (cov = 1 \<longleftrightarrow> ms = [] \<and> j \<noteq> [])"
proof -
  have sum: "length mt + length ms = n"
    unfolding mt_def ms_def n_def by (rule length_matching_missing)
  have le: "length mt \<le> n" using sum by linarith
  have "cov = 1 \<longleftrightarrow> ms = [] \<and> j \<noteq> []"
  proof (cases "j = []")
    case True
    then show ?thesis by (simp add: cov_def)
  next
    case False
    then have pos: "0 < n" by (simp add: n_def)
    have "cov = 1 \<longleftrightarrow> length mt = n" using pos False by (auto simp: cov_def n_def)
    also have "\<dots> \<longleftrightarrow> length ms = 0" using sum by linarith
    finally show ?thesis using False by simp
  qed
  moreover have "set mt \<inter> set ms = {}" "set mt \<union> set ms = set j"
    by (auto simp: mt_def ms_def set_intersection set_difference)
  moreover have "distinct mt" "distinct ms"
    by (simp_all add: mt_def ms_def distinct_intersection distinct_difference)
  moreover have "n = card (set j)" by (simp add: n_def length_remdups_card_conv)
  moreover have "0 \<le> cov" by (simp add: cov_def)
  moreover have "cov \<le> 1"
  proof (cases "j = []")
    case True
    then show ?thesis by (simp add: cov_def)
  next
    case False
    then have "0 < n" by (simp add: n_def)
    then show ?thesis using le False by (simp add: cov_def n_def)
  qed
  ultimately show ?thesis using sum by blast
qed

text \<open>
  C10, gap analysis. \<open>_analyze_skill_gaps\<close> returns a matching list and a missing list
  without duplicates: the matching list holds the skill ids the user and the job share, the
  missing list the job's ids the user lacks, so the two are disjoint and together hold
  exactly the job's skill ids; the counts add up to the number of required skills;
  coverage is the matched share of the required skills, 0 for a job without skills, and
  lies between 0 and 1. Coverage is 1 exactly when nothing is missing and the job has at
  least one skill: for a job without skills nothing is missing and coverage is 0. The
  TF-IDF matcher's \<open>_compute_job_gap_analysis\<close> returns the same, for the skill ids of the
  job's and the user's rows, when the store answers its two queries; when a query raises it
  returns the report with empty lists and zeros.
\<close>

theorem gap_analysis_partition:
  fixes user_skills job_skills :: "('k, real) dict"
    and us :: "user_skill_row list" and js :: "job_skill_v2_row list" and uid jid :: nat
    and user_rows :: "error + user_skill_row list" and job_rows :: "error + job_skill_v2_row list"
  defines "g \<equiv> analyze_skill_gaps user_skills job_skills"
    and "t \<equiv> compute_job_gap_analysis (Inr us) (Inr js) uid jid"
    and "job_ids \<equiv> jsv_skill_id ` {r \<in> set js. jsv_job_id r = jid}"
    and "user_ids \<equiv> us_skill_id ` {r \<in> set us. us_user_id r = uid}"
  shows "set (matching_skills g) = set (keys user_skills) \<inter> set (keys job_skills)
       \<and> set (missing_skills g) = set (keys job_skills) - set (keys user_skills)
       \<and> set (matching_skills g) \<inter> set (missing_skills g) = {}
       \<and> set (matching_skills g) \<union> set (missing_skills g) = set (keys job_skills)
       \<and> distinct (matching_skills g) \<and> distinct (missing_skills g)
       \<and> total_matching g = length (matching_skills g)
       \<and> total_missing g = length (missing_skills g)
       \<and> total_required g = card (set (keys job_skills))
       \<and> total_matching g + total_missing g = total_required g
       \<and> coverage g = (if keys job_skills = [] then 0
                        else real (total_matching g) / real (total_required g))
       \<and> 0 \<le> coverage g \<and> coverage g \<le> 1
       \<and> (coverage g = 1 \<longleftrightarrow> missing_skills g = [] \<and> keys job_skills \<noteq> [])
       \<and> set (tg_matching_skills t) = user_ids \<inter> job_ids
       \<and> set (tg_missing_skills t) = job_ids - user_ids
       \<and> set (tg_matching_skills t) \<inter> set (tg_missing_skills t) = {}
       \<and> set (tg_matching_skills t) \<union> set (tg_missing_skills t) = job_ids
       \<and> distinct (tg_matching_skills t) \<and> distinct (tg_missing_skills t)
       \<and> tg_total_required t = card job_ids
       \<and> tg_total_user_skills t = card user_ids
       \<and> length (tg_matching_skills t) + length (tg_missing_skills t) = tg_total_required t
       \<and> tg_coverage t = (if job_ids = {} then 0
                          else real (length (tg_matching_skills t)) / real (card job_ids))
       \<and> 0 \<le> tg_coverage t \<and> tg_coverage t \<le> 1
       \<and> (tg_coverage t = 1 \<longleftrightarrow> tg_missing_skills t = [] \<and> job_ids \<noteq> {})
       \<and> compute_job_gap_analysis (Inl e) job_rows uid jid
           = \<lparr> tg_coverage = 0, tg_jaccard_score = 0, tg_weighted_score = 0,
               tg_matching_skills = [], tg_missing_skills = [], tg_total_required = 0,
               tg_total_user_skills = 0 \<rparr>
       \<and> compute_job_gap_analysis user_rows (Inl e) uid jid
           = \<lparr> tg_coverage = 0, tg_jaccard_score = 0, tg_weighted_score = 0,
               tg_matching_skills = [], tg_missing_skills = [], tg_total_required = 0,
               tg_total_user_skills = 0 \<rparr>"
proof -
  have g: "matching_skills g = intersection (remdups (keys user_skills)) (remdups (keys job_skills))"
    "missing_skills g = difference (remdups (keys job_skills)) (remdups (keys user_skills))"
    "total_required g = length (remdups (keys job_skills))"
    "total_matching g = length (matching_skills g)"
    "total_missing g = length (missing_skills g)"
    "coverage g = (if remdups (keys job_skills) \<noteq> []
                   then real (length (matching_skills g)) / real (length (remdups (keys job_skills)))
                   else 0)"
    by (simp_all add: g_def analyze_skill_gaps_def Let_def)
  have part0: "set (matching_skills g) = set (keys user_skills) \<inter> set (keys job_skills)
       \<and> set (missing_skills g) = set (keys job_skills) - set (keys user_skills)"
    by (simp add: g set_intersection set_difference)
  have part1: "set (matching_skills g) \<inter> set (missing_skills g) = {}
       \<and> set (matching_skills g) \<union> set (missing_skills g) = set (keys job_skills)
       \<and> distinct (matching_skills g) \<and> distinct (missing_skills g)
       \<and> total_matching g = length (matching_skills g)
       \<and> total_missing g = length (missing_skills g)
       \<and> total_required g = card (set (keys job_skills))
       \<and> total_matching g + total_missing g = total_required g
       \<and> coverage g = (if keys job_skills = [] then 0
                        else real (total_matching g) / real (total_required g))
       \<and> 0 \<le> coverage g \<and> coverage g \<le> 1
       \<and> (coverage g = 1 \<longleftrightarrow> missing_skills g = [] \<and> keys job_skills \<noteq> [])"
    using partition_facts [of "keys user_skills" "keys job_skills"]
    unfolding g by simp
  define ud where "ud = foldl (\<lambda>d r. dict_set d (us_skill_id r) (us_proficiency_level r)) []
                            (filter (\<lambda>r. us_user_id r = uid) us)"
  define jd where "jd = foldl (\<lambda>d r. dict_set d (jsv_skill_id r)
                                         (or_num (Some (jsv_importance r)) 1)) []
                           (filter (\<lambda>r. jsv_job_id r = jid) js)"
  have ku: "set (keys ud) = user_ids"
    unfolding ud_def user_ids_def keys_foldl_dict_set by (simp add: keys_def)
  have kj: "set (keys jd) = job_ids"
    unfolding jd_def job_ids_def keys_foldl_dict_set by (simp add: keys_def)
  have kj_empty: "keys jd = [] \<longleftrightarrow> job_ids = {}" using kj by (metis set_empty)
  have t: "tg_matching_skills t = intersection (remdups (keys ud)) (remdups (keys jd))"
    "tg_missing_skills t = difference (remdups (keys jd)) (remdups (keys ud))"
    "tg_total_required t = length (remdups (keys jd))"
    "tg_total_user_skills t = length (remdups (keys ud))"
    "tg_coverage t = (if remdups (keys jd) \<noteq> []
                 then real (length (tg_matching_skills t)) / real (length (remdups (keys jd)))
                 else 0)"
    by (simp_all add: t_def compute_job_gap_analysis_def Let_def ud_def jd_def
          split: prod.splits)
  have part2a: "set (tg_matching_skills t) = user_ids \<inter> job_ids
       \<and> set (tg_missing_skills t) = job_ids - user_ids
       \<and> tg_total_user_skills t = card user_ids"
    by (simp add: t set_intersection set_difference ku kj length_remdups_card_conv)
  have part2: "set (tg_matching_skills t) \<inter> set (tg_missing_skills t) = {}
       \<and> set (tg_matching_skills t) \<union> set (tg_missing_skills t) = job_ids
       \<and> distinct (tg_matching_skills t) \<and> distinct (tg_missing_skills t)
       \<and> tg_total_required t = card job_ids
       \<and> length (tg_matching_skills t) + length (tg_missing_skills t) = tg_total_required t
       \<and> tg_coverage t = (if job_ids = {} then 0
                          else real (length (tg_matching_skills t)) / real (card job_ids))
       \<and> 0 \<le> tg_coverage t \<and> tg_coverage t \<le> 1
       \<and> (tg_coverage t = 1 \<longleftrightarrow> tg_missing_skills t = [] \<and> job_ids \<noteq> {})"
    using partition_facts [of "keys ud" "keys jd"] kj_empty
    unfolding t kj by auto
  have part3: "compute_job_gap_analysis (Inl e) job_rows uid jid
           = \<lparr> tg_coverage = 0, tg_jaccard_score = 0, tg_weighted_score = 0,
               tg_matching_skills = [], tg_missing_skills = [], tg_total_required = 0,
               tg_total_user_skills = 0 \<rparr>"
    by (simp add: compute_job_gap_analysis_def)
  have part4: "compute_job_gap_analysis user_rows (Inl e) uid jid
           = \<lparr> tg_coverage = 0, tg_jaccard_score = 0, tg_weighted_score = 0,
               tg_matching_skills = [], tg_missing_skills = [], tg_total_required = 0,
               tg_total_user_skills = 0 \<rparr>"
    by (simp add: compute_job_gap_analysis_def split: sum.splits)
  from part0 part1 part2a part2 part3 part4 show ?thesis
    by (elim conjE, intro conjI) assumption+
qed

text \<open>
  C10 as stated fails for a job without skills: no skill is missing, yet the guard of the
  division sets coverage to 0, not 1.
\<close>

theorem gap_coverage_empty_job_counterexample:
  "missing_skills (analyze_skill_gaps [(''python'', 8 / 10)] ([] :: (string, real) dict)) = []
   \<and> coverage (analyze_skill_gaps [(''python'', 8 / 10)] ([] :: (string, real) dict)) \<noteq> 1"
  by (simp add: analyze_skill_gaps_def keys_def difference_def intersection_def)

section \<open>Ranking: the order of the match list\<close>

lemma set_insort_reverse: "set (insort_reverse f x ys) = insert x (set ys)"
  by (induction ys) auto

lemma length_insort_reverse: "length (insort_reverse f x ys) = Suc (length ys)"
  by (induction ys) auto

lemma sorted_insort_reverse:
  "sorted_wrt (\<lambda>a b. f b \<le> f a) ys \<Longrightarrow> sorted_wrt (\<lambda>a b. f b \<le> f a) (insort_reverse f x ys)"
  by (induction ys) (auto simp: set_insort_reverse)

lemma filter_insort_reverse:
  "sorted_wrt (\<lambda>a b. f b \<le> f a) ys \<Longrightarrow>
   filter (\<lambda>y. f y = k) (insort_reverse f x ys)
     = filter (\<lambda>y. f y = k) ys @ (if f x = k then [x] else [])"
proof (induction ys)
  case Nil
  then show ?case by simp
next
  case (Cons y ys)
  show ?case
  proof (cases "f y < f x")
    case True
    then have "\<forall>z \<in> set (y # ys). f z < f x" using Cons.prems by auto
    then have "f x = k \<Longrightarrow> filter (\<lambda>y. f y = k) (y # ys) = []"
      by (auto simp: filter_empty_conv)
    then show ?thesis using True by auto
  next
    case False
    then show ?thesis using Cons by auto
  qed
qed

lemma foldl_insort_reverse:
  "sorted_wrt (\<lambda>a b. f b \<le> f a) acc \<Longrightarrow>
   sorted_wrt (\<lambda>a b. f b \<le> f a) (foldl (\<lambda>acc x. insort_reverse f x acc) acc xs)
   \<and> set (foldl (\<lambda>acc x. insort_reverse f x acc) acc xs) = set acc \<union> set xs
   \<and> length (foldl (\<lambda>acc x. insort_reverse f x acc) acc xs) = length acc + length xs
   \<and> filter (\<lambda>y. f y = k) (foldl (\<lambda>acc x. insort_reverse f x acc) acc xs)
        = filter (\<lambda>y. f y = k) acc @ filter (\<lambda>y. f y = k) xs"
proof (induction xs arbitrary: acc)
  case Nil
  then show ?case by simp
next
  case (Cons x xs)
  have s: "sorted_wrt (\<lambda>a b. f b \<le> f a) (insort_reverse f x acc)"
    using Cons.prems by (rule sorted_insort_reverse)
  show ?case using Cons.IH [OF s] filter_insort_reverse [OF Cons.prems, of k x]
    by (auto simp: set_insort_reverse length_insort_reverse)
qed

lemma sort_reverse_sorted: "sorted_wrt (\<lambda>a b. f b \<le> f a) (sort_reverse f xs)"
  using foldl_insort_reverse [of f "[]" xs] by (simp add: sort_reverse_def)

lemma set_sort_reverse: "set (sort_reverse f xs) = set xs"
  using foldl_insort_reverse [of f "[]" xs] by (simp add: sort_reverse_def)

lemma length_sort_reverse: "length (sort_reverse f xs) = length xs"
  using foldl_insort_reverse [of f "[]" xs] by (simp add: sort_reverse_def)

lemma sort_reverse_stable:
  "filter (\<lambda>y. f y = k) (sort_reverse f xs) = filter (\<lambda>y. f y = k) xs"
  using foldl_insort_reverse [of f "[]" xs k] by (simp add: sort_reverse_def)

lemma sorted_wrt_take: "sorted_wrt P xs \<Longrightarrow> sorted_wrt P (take n xs)"
  by (metis append_take_drop_id sorted_wrt_append)

lemma ranks_before:
  assumes "a \<in> set xs" "b \<in> set xs" "f b < f a"
  shows "\<exists>pre mid post. sort_reverse f xs = pre @ a # mid @ b # post"
proof -
  let ?out = "sort_reverse f xs"
  have a: "a \<in> set ?out" and b: "b \<in> set ?out" using assms by (simp_all add: set_sort_reverse)
  from a obtain pre post where out: "?out = pre @ a # post" by (meson split_list)
  have srt: "sorted_wrt (\<lambda>a b. f b \<le> f a) (pre @ a # post)"
    using sort_reverse_sorted [of f xs] out by simp
  have "b \<notin> set pre"
  proof
    assume "b \<in> set pre"
    then have "f a \<le> f b" using srt by (auto simp: sorted_wrt_append)
    then show False using assms(3) by simp
  qed
  moreover have "b \<noteq> a" using assms(3) by auto
  ultimately have "b \<in> set post" using b out by auto
  then obtain mid post' where "post = mid @ b # post'" by (meson split_list)
  then show ?thesis using out by auto
qed


lemma sort_key_less:
  "sort_key_of a < sort_key_of b \<longleftrightarrow>
     length (match_matching_skills a) < length (match_matching_skills b)
   \<or> length (match_matching_skills a) = length (match_matching_skills b)
     \<and> (similarity_score a < similarity_score b
        \<or> similarity_score a = similarity_score b
          \<and> (total_job_skills a < total_job_skills b
             \<or> total_job_skills a = total_job_skills b
               \<and> total_user_skills b < total_user_skills a))"
  by (auto simp: sort_key_of_def Let_def less_prod_def less_eq_prod_def)

lemma match_job_no_skills: "match_job [] job = []"
  by (simp add: match_job_def Let_def analyze_skill_gaps_def intersection_def keys_def)

lemma matcher_is_stable_sort:
  "\<exists>full. match_user_to_jobs user_skills jobs limit = take limit full
      \<and> sorted_wrt (\<lambda>x y. sort_key_of y \<le> sort_key_of x) full
      \<and> (\<forall>k. filter (\<lambda>m. sort_key_of m = k) full
               = filter (\<lambda>m. sort_key_of m = k) (concat (map (match_job user_skills) jobs)))"
proof -
  let ?cands = "concat (map (match_job user_skills) jobs)"
  have "match_user_to_jobs user_skills jobs limit = take limit (sort_reverse sort_key_of ?cands)"
  proof (cases "user_skills = []")
    case True
    have none: "concat (map (match_job []) jobs) = []"
      by (simp add: match_job_no_skills)
    show ?thesis
      unfolding True match_user_to_jobs_def sort_reverse_def none by simp
  next
    case False
    then show ?thesis by (simp add: match_user_to_jobs_def sort_reverse_def)
  qed
  then show ?thesis
    using sort_reverse_sorted [of sort_key_of ?cands] sort_reverse_stable [of sort_key_of _ ?cands]
    by blast
qed

lemma stored_matches_stable_sort:
  "\<exists>full. get_job_matches job_matches job_postings user_skills_emsi user_id limit = take limit full
      \<and> sorted_wrt (\<lambda>x y. sort_key_of y \<le> sort_key_of x) full
      \<and> (\<forall>k. filter (\<lambda>m. sort_key_of m = k) full
               = filter (\<lambda>m. sort_key_of m = k)
                   (concat (map (stored_match job_postings user_skills_emsi user_id)
                              (filter (\<lambda>row. jm_user_id row = user_id) job_matches))))"
proof -
  let ?cands = "concat (map (stored_match job_postings user_skills_emsi user_id)
                              (filter (\<lambda>row. jm_user_id row = user_id) job_matches))"
  have "get_job_matches job_matches job_postings user_skills_emsi user_id limit
          = take limit (sort_reverse sort_key_of ?cands)"
    by (simp add: get_job_matches_def Let_def)
  then show ?thesis
    using sort_reverse_sorted [of sort_key_of ?cands] sort_reverse_stable [of sort_key_of _ ?cands]
    by blast
qed

text \<open>
  C1, ranking. The lists returned by \<open>match_user_to_jobs\<close> and \<open>get_job_matches\<close> are in
  descending order of the key (number of matching skills, overall score, number of job
  skills, negated number of user skills), compared lexicographically. The sort keeps every
  candidate, and candidates with equal keys keep the order they had in the input. Any two
  keys are comparable, so the candidates are totally preordered by key. A candidate with 3
  matching skills and score 0.5 comes before one with 2 matching skills and score 0.9,
  wherever the two stand in the input. Each of the two returned lists is the first
  \<open>limit\<close> entries of a list in that order in which the candidates of equal key stand as
  they stand among the candidates: the matches of the jobs in the order of the jobs, the
  stored rows of the user in the order of the table.
\<close>

theorem match_ranking_order:
  fixes ms :: "'k match list" and a b :: "'k match"
  shows "sorted_wrt (\<lambda>x y. sort_key_of y \<le> sort_key_of x) (match_user_to_jobs user_skills jobs limit)
     \<and> sorted_wrt (\<lambda>x y. sort_key_of y \<le> sort_key_of x)
          (get_job_matches job_matches job_postings user_skills_emsi user_id limit)
     \<and> sorted_wrt (\<lambda>x y. sort_key_of y \<le> sort_key_of x) (sort_reverse sort_key_of ms)
     \<and> set (sort_reverse sort_key_of ms) = set ms
     \<and> length (sort_reverse sort_key_of ms) = length ms
     \<and> filter (\<lambda>m. sort_key_of m = k) (sort_reverse sort_key_of ms) = filter (\<lambda>m. sort_key_of m = k) ms
     \<and> sort_key_of a = (length (match_matching_skills a), similarity_score a, total_job_skills a,
                      - int (total_user_skills a))
     \<and> (sort_key_of a < sort_key_of b \<longleftrightarrow>
           length (match_matching_skills a) < length (match_matching_skills b)
         \<or> length (match_matching_skills a) = length (match_matching_skills b)
           \<and> (similarity_score a < similarity_score b
              \<or> similarity_score a = similarity_score b
                \<and> (total_job_skills a < total_job_skills b
                   \<or> total_job_skills a = total_job_skills b
                     \<and> total_user_skills b < total_user_skills a)))
     \<and> (sort_key_of a < sort_key_of b \<or> sort_key_of a = sort_key_of b \<or> sort_key_of b < sort_key_of a)
     \<and> (a \<in> set ms \<and> b \<in> set ms
          \<and> length (match_matching_skills a) = 3 \<and> similarity_score a = 5 / 10
          \<and> length (match_matching_skills b) = 2 \<and> similarity_score b = 9 / 10
          \<longrightarrow> (\<exists>pre mid post. sort_reverse sort_key_of ms = pre @ a # mid @ b # post))
     \<and> (\<exists>full. match_user_to_jobs user_skills jobs limit = take limit full
            \<and> sorted_wrt (\<lambda>x y. sort_key_of y \<le> sort_key_of x) full
            \<and> (\<forall>k. filter (\<lambda>m. sort_key_of m = k) full
                     = filter (\<lambda>m. sort_key_of m = k) (concat (map (match_job user_skills) jobs))))
     \<and> (\<exists>full. get_job_matches job_matches job_postings user_skills_emsi user_id limit
                   = take limit full
            \<and> sorted_wrt (\<lambda>x y. sort_key_of y \<le> sort_key_of x) full
            \<and> (\<forall>k. filter (\<lambda>m. sort_key_of m = k) full
                     = filter (\<lambda>m. sort_key_of m = k)
                         (concat (map (stored_match job_postings user_skills_emsi user_id)
                                    (filter (\<lambda>row. jm_user_id row = user_id) job_matches)))))"
proof -
  have 1: "sorted_wrt (\<lambda>x y. sort_key_of y \<le> sort_key_of x) (match_user_to_jobs user_skills jobs limit)"
    by (simp add: match_user_to_jobs_def sorted_wrt_take sort_reverse_sorted)
  have 2: "sorted_wrt (\<lambda>x y. sort_key_of y \<le> sort_key_of x)
          (get_job_matches job_matches job_postings user_skills_emsi user_id limit)"
    by (simp add: get_job_matches_def Let_def sorted_wrt_take sort_reverse_sorted)
  have 3: "a \<in> set ms \<and> b \<in> set ms
          \<and> length (match_matching_skills a) = 3 \<and> similarity_score a = 5 / 10
          \<and> length (match_matching_skills b) = 2 \<and> similarity_score b = 9 / 10
          \<longrightarrow> (\<exists>pre mid post. sort_reverse sort_key_of ms = pre @ a # mid @ b # post)"
  proof
    assume h: "a \<in> set ms \<and> b \<in> set ms
          \<and> length (match_matching_skills a) = 3 \<and> similarity_score a = 5 / 10
          \<and> length (match_matching_skills b) = 2 \<and> similarity_score b = 9 / 10"
    then have lt: "sort_key_of b < sort_key_of a" unfolding sort_key_less by simp
    from h have ab: "a \<in> set ms" "b \<in> set ms" by simp_all
    show "\<exists>pre mid post. sort_reverse sort_key_of ms = pre @ a # mid @ b # post"
      by (rule ranks_before [OF ab lt])
  qed
  have 4: "sort_key_of a < sort_key_of b \<or> sort_key_of a = sort_key_of b \<or> sort_key_of b < sort_key_of a"
    by (rule less_linear)
  have 5: "sort_key_of a = (length (match_matching_skills a), similarity_score a, total_job_skills a,
                      - int (total_user_skills a))"
    by (simp add: sort_key_of_def Let_def)
  show ?thesis
    apply (intro conjI)
    subgoal by (rule 1)
    subgoal by (rule 2)
    subgoal by (rule sort_reverse_sorted)
    subgoal by (rule set_sort_reverse)
    subgoal by (rule length_sort_reverse)
    subgoal by (rule sort_reverse_stable)
    subgoal by (rule 5)
    subgoal by (rule sort_key_less)
    subgoal by (rule 4)
    subgoal by (rule 3)
    subgoal by (rule matcher_is_stable_sort)
    subgoal by (rule stored_matches_stable_sort)
    done
qed

theorem match_ranking_order_witness:
  "\<exists>pre mid post.
     sort_reverse sort_key_of
       [candidate 1 [Str ''python'', Str ''sql''] (9 / 10),
        candidate 2 [Str ''python'', Str ''sql'', Str ''aws''] (5 / 10)]
     = pre @ candidate 2 [Str ''python'', Str ''sql'', Str ''aws''] (5 / 10) # mid
         @ candidate 1 [Str ''python'', Str ''sql''] (9 / 10) # post"
  using match_ranking_order
    [where ms = "[candidate 1 [Str ''python'', Str ''sql''] (9 / 10),
        candidate 2 [Str ''python'', Str ''sql'', Str ''aws''] (5 / 10)]"
       and a = "candidate 2 [Str ''python'', Str ''sql'', Str ''aws''] (5 / 10)"
       and b = "candidate 1 [Str ''python'', Str ''sql''] (9 / 10)"]
  by (simp add: candidate_def)


text \<open>
  C1 as stated fails on ties: two different stored matches with the same key are not
  ordered by it, and the result lists them in the order of the input.
\<close>

theorem ranking_ties_counterexample:
  "stored_row_a \<noteq> stored_row_b
   \<and> map job_id (get_job_matches [stored_row_a, stored_row_b] two_postings [] 7 20) = [100, 200]
   \<and> map job_id (get_job_matches [stored_row_b, stored_row_a] two_postings [] 7 20) = [200, 100]
   \<and> map sort_key_of (get_job_matches [stored_row_a, stored_row_b] two_postings [] 7 20)
        = [(2, 1 / 2, 3, 0), (2, 1 / 2, 3, 0)]"
  by (simp add: get_job_matches_def stored_match_def stored_row_a_def stored_row_b_def
        two_postings_def sort_reverse_def sort_key_of_def or_num_def or_list_def
        get_user_skill_count_def)

section \<open>The floor of two matching skills\<close>

lemma match_job_cases:
  "match_job user_skills job = [] \<and> card (set (keys user_skills) \<inter> set (keys (jd_skills job))) < 2
   \<or> (\<exists>m. match_job user_skills job = [m] \<and> job_id m = jd_id job
        \<and> set (match_matching_skills m) = set (keys user_skills) \<inter> set (keys (jd_skills job))
        \<and> length (match_matching_skills m) = card (set (keys user_skills) \<inter> set (keys (jd_skills job)))
        \<and> 2 \<le> card (set (keys user_skills) \<inter> set (keys (jd_skills job))))"
  by (simp add: match_job_def Let_def analyze_skill_gaps_def length_intersection set_intersection)

text \<open>
  C4, the floor of two matching skills. Every match that \<open>match_user_to_jobs\<close> returns
  comes from a job that shares at least 2 skill ids with the user, and a job that shares
  fewer than 2 contributes no candidate, whatever its scores. This holds for the pairwise
  matcher only.
\<close>

theorem pairwise_matching_floor:
  "(\<forall>m \<in> set (match_user_to_jobs user_skills jobs limit).
       2 \<le> length (match_matching_skills m)
     \<and> (\<exists>job \<in> set jobs. job_id m = jd_id job
          \<and> set (match_matching_skills m) = set (keys user_skills) \<inter> set (keys (jd_skills job))
          \<and> 2 \<le> card (set (keys user_skills) \<inter> set (keys (jd_skills job)))))
   \<and> (card (set (keys user_skills) \<inter> set (keys (jd_skills job))) < 2
        \<longrightarrow> match_job user_skills job = [])"
proof -
  have "\<forall>m \<in> set (match_user_to_jobs user_skills jobs limit).
       2 \<le> length (match_matching_skills m)
     \<and> (\<exists>job \<in> set jobs. job_id m = jd_id job
          \<and> set (match_matching_skills m) = set (keys user_skills) \<inter> set (keys (jd_skills job))
          \<and> 2 \<le> card (set (keys user_skills) \<inter> set (keys (jd_skills job))))"
  proof
    fix m assume mem: "m \<in> set (match_user_to_jobs user_skills jobs limit)"
    let ?cands = "concat (map (match_job user_skills) jobs)"
    have "match_user_to_jobs user_skills jobs limit = []
        \<or> match_user_to_jobs user_skills jobs limit = take limit (sort_reverse sort_key_of ?cands)"
      by (simp add: match_user_to_jobs_def)
    with mem have "m \<in> set (take limit (sort_reverse sort_key_of ?cands))" by auto
    then have "m \<in> set (sort_reverse sort_key_of ?cands)" by (rule in_set_takeD)
    then have "m \<in> set ?cands" by (simp only: set_sort_reverse)
    then obtain job where j: "job \<in> set jobs" "m \<in> set (match_job user_skills job)"
      by auto
    let ?ov = "set (keys user_skills) \<inter> set (keys (jd_skills job))"
    have "match_job user_skills job \<noteq> []" using j(2) by auto
    with match_job_cases [of user_skills job]
    obtain m' where m': "match_job user_skills job = [m']" "job_id m' = jd_id job"
        "set (match_matching_skills m') = ?ov" "length (match_matching_skills m') = card ?ov"
        "2 \<le> card ?ov"
      by blast
    have "m = m'" using j(2) m'(1) by simp
    then have "2 \<le> length (match_matching_skills m)" using m'(4,5) by simp
    moreover have "\<exists>job \<in> set jobs. job_id m = jd_id job
          \<and> set (match_matching_skills m) = set (keys user_skills) \<inter> set (keys (jd_skills job))
          \<and> 2 \<le> card (set (keys user_skills) \<inter> set (keys (jd_skills job)))"
      using j(1) m'(2,3,5) \<open>m = m'\<close> by blast
    ultimately show "2 \<le> length (match_matching_skills m)
     \<and> (\<exists>job \<in> set jobs. job_id m = jd_id job
          \<and> set (match_matching_skills m) = set (keys user_skills) \<inter> set (keys (jd_skills job))
          \<and> 2 \<le> card (set (keys user_skills) \<inter> set (keys (jd_skills job))))"
      by (rule conjI)
  qed
  moreover have "card (set (keys user_skills) \<inter> set (keys (jd_skills job))) < 2
        \<longrightarrow> match_job user_skills job = []"
    using match_job_cases [of user_skills job] by linarith
  ultimately show ?thesis by (rule conjI)
qed

lemma one_of_five:
  "card (set (keys one_skill_user) \<inter> set (keys (jd_skills five_skill_job))) = 1"
  unfolding length_intersection [symmetric]
  by (simp add: one_skill_user_def five_skill_job_def keys_def intersection_def)

lemma one_of_five_coverage:
  "coverage (analyze_skill_gaps one_skill_user (jd_skills five_skill_job)) = 1 / 5"
  by (simp add: analyze_skill_gaps_def one_skill_user_def five_skill_job_def keys_def intersection_def difference_def)

theorem pairwise_matching_floor_witness:
  "match_user_to_jobs one_skill_user [five_skill_job] 50 = []
   \<and> match_job one_skill_user five_skill_job = []
   \<and> coverage (analyze_skill_gaps one_skill_user (jd_skills five_skill_job)) = 1 / 5"
proof -
  have few: "card (set (keys one_skill_user) \<inter> set (keys (jd_skills five_skill_job))) < 2"
    by (simp only: one_of_five)
  have none: "match_job one_skill_user five_skill_job = []"
    by (rule mp [OF conjunct2 [OF pairwise_matching_floor
            [of one_skill_user "[five_skill_job]" 50 five_skill_job]] few])
  have "match_user_to_jobs one_skill_user [five_skill_job] 50 = []"
    by (simp add: match_user_to_jobs_def none sort_reverse_def)
  then show ?thesis using none one_of_five_coverage by simp
qed

text \<open>
  C4 as stated fails for the TF-IDF matcher: \<open>compute_matches\<close> keeps every job whose
  similarity exceeds 0.01 and has no floor on the overlap. A user with the single skill 10
  is matched to job 100, which requires five skills and shares only that one.
\<close>

lemma example_docs:
  "map doc_id (create_job_skill_documents two_postings example_job_skills_v2 example_skills_v2)
     = [100, 200]"
  by code_simp

lemma example_user_text:
  "create_user_text example_user_skills example_skills_v2 7 \<noteq> None"
  by code_simp

lemma example_gap_matching:
  "tg_matching_skills (compute_job_gap_analysis (Inr example_user_skills)
       (Inr example_job_skills_v2) 7 100) = [10]"
  by code_simp

lemma example_gap_coverage:
  "tg_coverage (compute_job_gap_analysis (Inr example_user_skills)
       (Inr example_job_skills_v2) 7 100) = 1 / 5"
  by code_simp

theorem tfidf_single_overlap_counterexample:
  "map (\<lambda>m. (job_id m, match_matching_skills m, skill_coverage m))
     (compute_matches two_postings example_job_skills_v2 example_skills_v2 example_user_skills
        [3 / 10, 0] 7 50) = [(100, [10], 1 / 5)]"
proof -
  define docs where
    "docs = create_job_skill_documents two_postings example_job_skills_v2 example_skills_v2"
  have ids: "map doc_id docs = [100, 200]" unfolding docs_def by (rule example_docs)
  then obtain d1 d2 where d: "docs = [d1, d2]" "doc_id d1 = 100" "doc_id d2 = 200"
    by (auto simp: map_eq_Cons_conv)
  obtain user_text where u: "create_user_text example_user_skills example_skills_v2 7 = Some user_text"
    using example_user_text by auto
  have "compute_matches two_postings example_job_skills_v2 example_skills_v2 example_user_skills
        [3 / 10, 0] 7 50
      = take 50 (sort_reverse similarity_score
          (concat (map (tfidf_match example_user_skills example_job_skills_v2 7)
                     (zip docs [3 / 10, 0]))))"
    using d(1) by (simp add: compute_matches_def Let_def docs_def [symmetric] u)
  then show ?thesis
    by (simp add: d tfidf_match_def sort_reverse_def Let_def example_gap_matching
          example_gap_coverage)
qed

section \<open>TF-IDF documents: how often a variation is repeated\<close>

lemma count_list_replicate: "count_list (replicate n v) x = (if x = v then n else 0)"
  by (induction n) auto

lemma count_list_repeated:
  "distinct vs \<Longrightarrow>
   count_list (concat (map (\<lambda>v. replicate n v) vs)) x = (if x \<in> set vs then n else 0)"
  by (induction vs) (auto simp: count_list_replicate)

lemma distinct_variations: "distinct (get_skill_variations name)"
  by (simp add: get_skill_variations_def Let_def)

lemma repetitions_floor: "repetitions w = nat (max 1 \<lfloor>w * 5\<rfloor>)"
proof (cases "0 \<le> w * 5")
  case True
  then show ?thesis by (simp add: repetitions_def py_int_def)
next
  case False
  then have "\<lceil>w * 5\<rceil> \<le> 0" "\<lfloor>w * 5\<rfloor> \<le> 0" by (simp_all add: ceiling_le_iff floor_le_iff)
  then show ?thesis using False by (simp add: repetitions_def py_int_def max_def)
qed

lemma job_skill_names_count:
  "find (\<lambda>skill. sv_id skill = jsv_skill_id rel) skills_v2 = Some skill \<Longrightarrow>
   count_list (job_skill_names skills_v2 rel) v =
     (if v \<in> set (get_skill_variations (lower (sv_name skill)))
      then repetitions (or_num (Some (jsv_importance rel)) 1) else 0)"
  by (simp add: job_skill_names_def Let_def count_list_repeated distinct_variations)

lemma user_skill_names_count:
  "find (\<lambda>skill. sv_id skill = us_skill_id us) skills_v2 = Some skill \<Longrightarrow>
   count_list (user_skill_names skills_v2 us) v =
     (if v \<in> set (get_skill_variations (lower (sv_name skill)))
      then repetitions (us_proficiency_level us * us_confidence us) else 0)"
  by (simp add: user_skill_names_def Let_def count_list_repeated distinct_variations)

lemma user_text_is_join:
  "create_user_text user_skills_tbl skills_v2 user_id =
     (let names = concat (map (user_skill_names skills_v2)
                            (filter (\<lambda>us. us_user_id us = user_id) user_skills_tbl))
      in if join '' '' names = [] then None else Some (join '' '' names))"
  by (simp add: create_user_text_def Let_def)

text \<open>
  C6, document building. A skill of a job whose skill row exists contributes each of its
  variations exactly \<open>max(1, int(importance * 5))\<close> times to the job's token list, that is
  \<open>max 1 \<lfloor>importance * 5\<rfloor>\<close> times, the importance being 1.0 when the column is 0; a
  skill without a skill row contributes nothing. The job's document is the tokens of all
  its skills joined by blanks. The user's tokens are built the same way from
  \<open>proficiency * confidence\<close>, and the user's document is the tokens of all the user's
  skills joined by blanks, or none when that text is empty. The count is truncated, not
  rounded.
\<close>

theorem document_repetitions:
  "repetitions w = nat (max 1 \<lfloor>w * 5\<rfloor>)
   \<and> (find (\<lambda>skill. sv_id skill = jsv_skill_id rel) skills_v2 = Some skill \<longrightarrow>
        count_list (job_skill_names skills_v2 rel) v =
          (if v \<in> set (get_skill_variations (lower (sv_name skill)))
           then repetitions (if jsv_importance rel = 0 then 1 else jsv_importance rel) else 0))
   \<and> (find (\<lambda>skill. sv_id skill = jsv_skill_id rel) skills_v2 = None \<longrightarrow>
        job_skill_names skills_v2 rel = [])
   \<and> (find (\<lambda>skill. sv_id skill = us_skill_id us) skills_v2 = Some skill' \<longrightarrow>
        count_list (user_skill_names skills_v2 us) v =
          (if v \<in> set (get_skill_variations (lower (sv_name skill')))
           then repetitions (us_proficiency_level us * us_confidence us) else 0))
   \<and> map (\<lambda>d. (doc_id d, doc_skill_names d, doc_skill_text d))
         (create_job_skill_documents job_postings job_skills_v2 skills_v2)
       = map (\<lambda>job. (jp_id job,
                concat (map (job_skill_names skills_v2)
                          (filter (\<lambda>js. jsv_job_id js = jp_id job) job_skills_v2)),
                join '' '' (concat (map (job_skill_names skills_v2)
                          (filter (\<lambda>js. jsv_job_id js = jp_id job) job_skills_v2)))))
           (filter (\<lambda>jp. jp_is_active jp \<and> list_ex (\<lambda>js. jsv_job_id js = jp_id jp) job_skills_v2)
              job_postings)
   \<and> create_user_text user_skills_tbl skills_v2 user_id =
       (let names = concat (map (user_skill_names skills_v2)
                              (filter (\<lambda>us. us_user_id us = user_id) user_skills_tbl))
        in if join '' '' names = [] then None else Some (join '' '' names))"
  apply (intro conjI impI)
  subgoal by (rule repetitions_floor)
  subgoal by (simp add: job_skill_names_count or_num_def)
  subgoal by (simp add: job_skill_names_def)
  subgoal by (simp add: user_skill_names_count)
  subgoal by (simp add: create_job_skill_documents_def Let_def comp_def)
  subgoal by (rule user_text_is_join)
  done

lemma python_variations:
  "get_skill_variations (lower ''Python'') = [''python'', ''python (programming language)'']"
  by code_simp

lemma find_python:
  "find (\<lambda>skill. sv_id skill = 10) example_skills_v2
     = Some \<lparr> sv_id = 10, sv_name = ''Python'', sv_skill_type = TECHNICAL \<rparr>"
  by (simp add: example_skills_v2_def)

theorem document_repetitions_witness:
  "count_list (job_skill_names example_skills_v2 python_three_quarters)
      ''python (programming language)'' = 3
   \<and> count_list (user_skill_names example_skills_v2 user_python) ''python'' = 3"
  using document_repetitions [of _ python_three_quarters example_skills_v2
      "\<lparr> sv_id = 10, sv_name = ''Python'', sv_skill_type = TECHNICAL \<rparr>"
      "''python (programming language)''" user_python
      "\<lparr> sv_id = 10, sv_name = ''Python'', sv_skill_type = TECHNICAL \<rparr>"]
    document_repetitions [of _ python_three_quarters example_skills_v2
      "\<lparr> sv_id = 10, sv_name = ''Python'', sv_skill_type = TECHNICAL \<rparr>"
      "''python''" user_python
      "\<lparr> sv_id = 10, sv_name = ''Python'', sv_skill_type = TECHNICAL \<rparr>"]
  by (simp add: python_three_quarters_def user_python_def find_python python_variations
        repetitions_def py_int_def)

text \<open>
  C6 as stated fails at importance 0.75: \<open>int(3.75)\<close> is 3, rounding gives 4.
\<close>

theorem repetitions_truncate_counterexample:
  "count_list (job_skill_names example_skills_v2 python_three_quarters) ''python'' = 3
   \<and> repetitions (3 / 4) = 3 \<and> spec_repetitions (3 / 4) = 4"
  by (simp add: job_skill_names_def python_three_quarters_def find_python python_variations
        or_num_def repetitions_def py_int_def spec_repetitions_def round_def Let_def
        count_list_replicate)

section \<open>Priorities of missing skills\<close>




















lemma scenario_user:
  "get_user_skills scenario_user_skills_emsi 7 = [(''python'', 24 / 25), (''sql'', 18 / 25)]"
  by code_simp

lemma scenario_job:
  "job_skill_dict_of scenario_job_skills_emsi 100
      = [(''KS125LS6N7WP4S6SFTCK'', 1), (''KS120FG6YP8PQYYNQY9B'', 1),
         (''KSY4WFI1S164RQUBSPCC'', 1 / 2)]"
  by (simp add: job_skill_dict_of_def scenario_job_skills_emsi_def or_num_def)


text \<open>
  The report keys the user's skills by normalized name and the job's by EMSI skill id. On
  a store whose ids are not the names, a skill the user has is listed as missing and
  coverage is 0: here the user has Python and the job requires it.
\<close>

lemma dynamic_report_compares_names_with_ids:
  "gr_skill_coverage (calculate_skill_gaps_dynamic scenario_user_skills_emsi
      scenario_job_skills_emsi scenario_emsi_skills 7 100) = 0
   \<and> gr_total_gaps (calculate_skill_gaps_dynamic scenario_user_skills_emsi
      scenario_job_skills_emsi scenario_emsi_skills 7 100) = 3"
proof -
  show ?thesis
    by (simp add: calculate_skill_gaps_dynamic_def Let_def scenario_user scenario_job
        analyze_skill_gaps_def keys_def intersection_def difference_def split: prod.splits)
qed


section \<open>Normalization: the technical boost and the maximum on collision\<close>

lemma map_of_merge_step:
  "map_of (merge_step valid key w acc r) n =
     (if valid r \<and> key r = n
      then Some (case map_of acc n of None \<Rightarrow> w r | Some v \<Rightarrow> max v (w r))
      else map_of acc n)"
  by (auto simp: merge_step_def map_of_dict_set in_keys_iff dict_item_def)

lemma distinct_merge_step: "distinct (keys acc) \<Longrightarrow> distinct (keys (merge_step valid key w acc r))"
  by (simp add: merge_step_def distinct_dict_set)

lemma foldl_merge_step:
  "map_of (foldl (merge_step valid key w) acc rows) n
     = merge_max (map_of acc n) (map w (filter (\<lambda>r. valid r \<and> key r = n) rows))"
proof (induction rows arbitrary: acc)
  case Nil
  then show ?case by simp
next
  case (Cons r rows)
  show ?case
    by (cases "map_of acc n") (simp_all add: Cons.IH map_of_merge_step)
qed

lemma distinct_foldl_merge_step:
  "distinct (keys acc) \<Longrightarrow> distinct (keys (foldl (merge_step valid key w) acc rows))"
  by (induction rows arbitrary: acc) (simp_all add: distinct_merge_step)

lemma merge_max_Some: "merge_max (Some v) ws = Some (Max (insert v (set ws)))"
proof (induction ws arbitrary: v)
  case Nil
  then show ?case by simp
next
  case (Cons w ws)
  have "Max (insert (max v w) (set ws)) = Max (insert v (insert w (set ws)))"
    by (cases "set ws = {}") (simp_all add: max.assoc)
  then show ?case by (simp add: Cons.IH)
qed

lemma merge_max_None: "merge_max None ws = (if ws = [] then None else Some (Max (set ws)))"
  by (cases ws) (simp_all add: merge_max_Some)

lemma user_skill_step_merge:
  "user_skill_step = merge_step (\<lambda>row. is_valid_skill (use_skill_name row))
      (\<lambda>row. normalize_skill_name (use_skill_name row))
      (\<lambda>row. if is_technical_skill (use_skill_name row)
             then min 1 (use_proficiency_level row * (12 / 10)) else use_proficiency_level row)"
  by (simp add: fun_eq_iff user_skill_step_def merge_step_def Let_def)

lemma job_skill_step_merge:
  "job_skill_step = merge_step (\<lambda>row. is_valid_skill (jse_skill_name row))
      (\<lambda>row. normalize_skill_name (jse_skill_name row))
      (\<lambda>row. if is_technical_skill (jse_skill_name row)
             then min 2 (or_num (jse_importance row) 1 * (13 / 10))
             else or_num (jse_importance row) 1)"
  by (simp add: fun_eq_iff job_skill_step_def merge_step_def Let_def)

text \<open>
  C5, normalization. The normalized user map holds, for a skill id, the maximum over the
  user's valid raw labels that normalize to it of the label's weight, where the weight is
  the proficiency, multiplied by 1.2 and capped at 1.0 when the technical-skill predicate
  holds of the raw label; the job side is the same with the importance (1.0 for 0 or NULL),
  the factor 1.3 and the cap 2.0. No skill id occurs twice. The predicate is applied to the
  raw label, before it is normalized.
\<close>

theorem normalizer_boost_and_max:
  "map_of (get_user_skills user_skills_emsi user_id) n =
     (let ws = map (\<lambda>row. if is_technical_skill (use_skill_name row)
                           then min 1 (use_proficiency_level row * (12 / 10))
                           else use_proficiency_level row)
                 (filter (\<lambda>row. is_valid_skill (use_skill_name row)
                                \<and> normalize_skill_name (use_skill_name row) = n)
                    (filter (\<lambda>row. use_user_id row = user_id) user_skills_emsi))
      in if ws = [] then None else Some (Max (set ws)))
   \<and> distinct (keys (get_user_skills user_skills_emsi user_id))
   \<and> map_of (foldl job_skill_step [] job_skills) n =
     (let ws = map (\<lambda>row. if is_technical_skill (jse_skill_name row)
                           then min 2 (or_num (jse_importance row) 1 * (13 / 10))
                           else or_num (jse_importance row) 1)
                 (filter (\<lambda>row. is_valid_skill (jse_skill_name row)
                                \<and> normalize_skill_name (jse_skill_name row) = n) job_skills)
      in if ws = [] then None else Some (Max (set ws)))
   \<and> distinct (keys (foldl job_skill_step [] job_skills))"
  apply (intro conjI)
  subgoal
    unfolding get_user_skills_def user_skill_step_merge foldl_merge_step Let_def
    by (simp only: map_of.simps merge_max_None)
  subgoal
    unfolding get_user_skills_def user_skill_step_merge
    by (rule distinct_foldl_merge_step) (simp add: keys_def)
  subgoal
    unfolding job_skill_step_merge foldl_merge_step Let_def
    by (simp only: map_of.simps merge_max_None)
  subgoal
    unfolding job_skill_step_merge
    by (rule distinct_foldl_merge_step) (simp add: keys_def)
  done

lemma lowered_names:
  "strip (lower ''MySQL'') = ''mysql''" "strip (lower ''SQL Server'') = ''sql server''"
  "strip (lower ''Postgres'') = ''postgres''" "strip (lower ''sql'') = ''sql''"
  by code_simp+

lemma normalized_names:
  "normalize_skill_name ''MySQL'' = ''sql''" "normalize_skill_name ''SQL Server'' = ''sql''"
  "normalize_skill_name ''Postgres'' = ''sql''"
  by (simp_all add: normalize_skill_name_def lowered_names substitutions_def substitute_def)

lemma technical_names:
  "is_technical_skill ''MySQL''" "is_technical_skill ''SQL Server''"
  "\<not> is_technical_skill ''Postgres''" "is_technical_skill ''sql''"
  by (simp_all add: is_technical_skill_def lowered_names technical_keywords_def)

lemma valid_names:
  "is_valid_skill ''MySQL''" "is_valid_skill ''SQL Server''" "is_valid_skill ''Postgres''"
  by (simp_all add: is_valid_skill_def lowered_names Let_def meaningless_skills_def
        invalid_terms_def partial_phrases_and_common_words_def medical_conditions_def
        problematic_patterns_def valid_support_skills_def generic_noise_skills_def
        standalone_gerunds_def)

theorem normalizer_boost_and_max_witness:
  "map_of (get_user_skills colliding_user_rows 7) ''sql'' = Some (21 / 25)"
  using normalizer_boost_and_max [of colliding_user_rows 7 "''sql''"]
  by (simp add: colliding_user_rows_def normalized_names technical_names valid_names)

text \<open>
  C5 as stated fails for the label Postgres: its canonical name \<open>sql\<close> satisfies the
  technical-skill predicate, the raw label does not, and the weights stay 0.5 and 1.0.
\<close>

theorem raw_label_boost_counterexample:
  "normalize_skill_name ''Postgres'' = ''sql''
   \<and> is_technical_skill (normalize_skill_name ''Postgres'')
   \<and> \<not> is_technical_skill ''Postgres''
   \<and> get_user_skills [postgres_user_row] 7 = [(''sql'', 1 / 2)]
   \<and> foldl job_skill_step [] [postgres_job_row] = [(''sql'', 1)]"
  by (simp add: normalized_names technical_names valid_names get_user_skills_def
        user_skill_step_def job_skill_step_def postgres_user_row_def postgres_job_row_def
        keys_def or_num_def Let_def)

section \<open>Industry alignment\<close>

lemma alignment_sums_Cons:
  "alignment_numerator u (item # items) = alignment_numerator u [item] + alignment_numerator u items"
  "alignment_denominator (item # items) = alignment_denominator [item] + alignment_denominator items"
  "length (alignment_matched u (item # items))
     = length (alignment_matched u [item]) + length (alignment_matched u items)"
  by (simp_all add: alignment_numerator_def alignment_denominator_def alignment_matched_def)

lemma alignment_step_sums:
  "alignment_step u (a, b, c) item
     = (a + alignment_numerator u [item], b + alignment_denominator [item],
        c + length (alignment_matched u [item]))"
  by (simp add: alignment_step_def Let_def alignment_numerator_def alignment_denominator_def
        alignment_matched_def)

lemma foldl_alignment_step:
  "foldl (alignment_step u) (a, b, c) items
     = (a + alignment_numerator u items, b + alignment_denominator items,
        c + length (alignment_matched u items))"
proof (induction items arbitrary: a b c)
  case Nil
  then show ?case
    by (simp add: alignment_numerator_def alignment_denominator_def alignment_matched_def)
next
  case (Cons item items)
  have "foldl (alignment_step u) (a, b, c) (item # items)
      = foldl (alignment_step u) (alignment_step u (a, b, c) item) items"
    by simp
  also have "\<dots> = (a + alignment_numerator u [item] + alignment_numerator u items,
                    b + alignment_denominator [item] + alignment_denominator items,
                    c + length (alignment_matched u [item]) + length (alignment_matched u items))"
    unfolding alignment_step_sums by (rule Cons.IH)
  finally show ?case
    by (simp only: alignment_sums_Cons(1) [of u item items] alignment_sums_Cons(2) [of item items]
          alignment_sums_Cons(3) [of u item items] add.assoc)
qed

lemma alignment_formula:
  "calculate_industry_alignment u i =
     min 1 (let q = (if alignment_denominator i > 0
                     then alignment_numerator u i / alignment_denominator i else 0);
                matched = length (alignment_matched u i)
            in if matched < 3 then q * (real matched / 3) else q)"
  by (simp add: calculate_industry_alignment_def foldl_alignment_step Let_def)

lemma in_keys_item: "k \<in> set (keys d) \<Longrightarrow> (k, dict_item d k) \<in> set d"
  by (induction d) (auto simp: keys_def dict_item_def)

lemma alignment_numerator_nonneg:
  assumes "\<forall>item \<in> set i. 0 \<le> ind_importance (snd item)"
    and "\<forall>entry \<in> set u. 0 \<le> au_proficiency (snd entry) \<and> 0 \<le> au_confidence (snd entry)"
  shows "0 \<le> alignment_numerator u i"
  unfolding alignment_numerator_def
proof (rule sum_list_nonneg)
  fix x assume "x \<in> set (map (\<lambda>item. au_proficiency (dict_item u (fst item))
                     * (if is_technical_skill (ind_name (snd item))
                        then ind_importance (snd item) * (12 / 10) else ind_importance (snd item))
                     * au_confidence (dict_item u (fst item)))
                (alignment_matched u i))"
  then obtain item where item: "item \<in> set i" "fst item \<in> set (keys u)"
    and x: "x = au_proficiency (dict_item u (fst item))
                     * (if is_technical_skill (ind_name (snd item))
                        then ind_importance (snd item) * (12 / 10) else ind_importance (snd item))
                     * au_confidence (dict_item u (fst item))"
    by (auto simp: alignment_matched_def)
  have "(fst item, dict_item u (fst item)) \<in> set u" using item(2) by (rule in_keys_item)
  then have "0 \<le> au_proficiency (dict_item u (fst item))" "0 \<le> au_confidence (dict_item u (fst item))"
    using assms(2) by force+
  moreover have "0 \<le> ind_importance (snd item)" using assms(1) item(1) by simp
  ultimately show "0 \<le> x" unfolding x by simp
qed

text \<open>
  C3, industry alignment. The score is the sum, over the industry's skills the user has, of
  proficiency times importance times confidence, the importance of a technical skill
  multiplied by 1.2 in this sum only, divided by the sum of the unboosted importances of
  all the industry's skills (0 when that sum is not positive); with fewer than 3 matched
  skills the quotient is scaled by matched/3; the result is capped at 1. It is never above
  1, it is not below 0 when importances, proficiencies and confidences are not negative,
  and it is 0 when the user has none of the industry's skills.
\<close>

theorem industry_alignment_formula:
  "calculate_industry_alignment user_skills industry_skills =
     min 1 (let matched = filter (\<lambda>item. fst item \<in> set (keys user_skills)) industry_skills;
                numerator =
                  sum_list (map (\<lambda>item. au_proficiency (dict_item user_skills (fst item))
                       * (if is_technical_skill (ind_name (snd item))
                          then ind_importance (snd item) * (12 / 10)
                          else ind_importance (snd item))
                       * au_confidence (dict_item user_skills (fst item))) matched);
                denominator = sum_list (map (\<lambda>item. ind_importance (snd item)) industry_skills);
                q = (if denominator > 0 then numerator / denominator else 0)
            in if length matched < 3 then q * (real (length matched) / 3) else q)
   \<and> calculate_industry_alignment user_skills industry_skills \<le> 1
   \<and> ((\<forall>item \<in> set industry_skills. 0 \<le> ind_importance (snd item))
        \<and> (\<forall>entry \<in> set user_skills. 0 \<le> au_proficiency (snd entry)
                                         \<and> 0 \<le> au_confidence (snd entry))
      \<longrightarrow> 0 \<le> calculate_industry_alignment user_skills industry_skills)
   \<and> (set (keys user_skills) \<inter> set (keys industry_skills) = {}
      \<longrightarrow> calculate_industry_alignment user_skills industry_skills = 0)"
proof (intro conjI impI)
  show "calculate_industry_alignment user_skills industry_skills =
     min 1 (let matched = filter (\<lambda>item. fst item \<in> set (keys user_skills)) industry_skills;
                numerator =
                  sum_list (map (\<lambda>item. au_proficiency (dict_item user_skills (fst item))
                       * (if is_technical_skill (ind_name (snd item))
                          then ind_importance (snd item) * (12 / 10)
                          else ind_importance (snd item))
                       * au_confidence (dict_item user_skills (fst item))) matched);
                denominator = sum_list (map (\<lambda>item. ind_importance (snd item)) industry_skills);
                q = (if denominator > 0 then numerator / denominator else 0)
            in if length matched < 3 then q * (real (length matched) / 3) else q)"
    unfolding alignment_formula
    by (simp only: Let_def alignment_numerator_def alignment_denominator_def alignment_matched_def)
  show "calculate_industry_alignment user_skills industry_skills \<le> 1"
    unfolding alignment_formula by simp
next
  assume h: "(\<forall>item \<in> set industry_skills. 0 \<le> ind_importance (snd item))
        \<and> (\<forall>entry \<in> set user_skills. 0 \<le> au_proficiency (snd entry)
                                         \<and> 0 \<le> au_confidence (snd entry))"
  then have n: "0 \<le> alignment_numerator user_skills industry_skills"
    using alignment_numerator_nonneg by blast
  have q: "0 \<le> (if alignment_denominator industry_skills > 0
                     then alignment_numerator user_skills industry_skills
                          / alignment_denominator industry_skills
                     else 0)"
    using n by simp
  show "0 \<le> calculate_industry_alignment user_skills industry_skills"
    unfolding alignment_formula Let_def using q by simp
next
  assume "set (keys user_skills) \<inter> set (keys industry_skills) = {}"
  then have "alignment_matched user_skills industry_skills = []"
    by (auto simp: alignment_matched_def keys_def filter_empty_conv)
  then show "calculate_industry_alignment user_skills industry_skills = 0"
    unfolding alignment_formula Let_def by simp
qed

lemma alignment_names:
  "is_technical_skill ''Python''" "\<not> is_technical_skill ''Excel''"
  "\<not> is_technical_skill ''Writing''"
proof -
  have l: "strip (lower ''Python'') = ''python''" "strip (lower ''Excel'') = ''excel''"
    "strip (lower ''Writing'') = ''writing''"
    by code_simp+
  show "is_technical_skill ''Python''" "\<not> is_technical_skill ''Excel''"
    "\<not> is_technical_skill ''Writing''"
    by (simp_all add: is_technical_skill_def l technical_keywords_def)
qed

theorem industry_alignment_formula_witness:
  "0 \<le> calculate_industry_alignment alignment_user alignment_industry
   \<and> calculate_industry_alignment unrelated_user alignment_industry = 0"
proof -
  have nonneg: "(\<forall>item \<in> set alignment_industry. 0 \<le> ind_importance (snd item))
        \<and> (\<forall>entry \<in> set alignment_user. 0 \<le> au_proficiency (snd entry)
                                         \<and> 0 \<le> au_confidence (snd entry))"
    by (simp add: alignment_user_def alignment_industry_def)
  have disjoint: "set (keys unrelated_user) \<inter> set (keys alignment_industry) = {}"
    by (simp add: unrelated_user_def alignment_industry_def keys_def)
  have "0 \<le> calculate_industry_alignment alignment_user alignment_industry"
    using industry_alignment_formula [of alignment_user alignment_industry] nonneg by blast
  moreover have "calculate_industry_alignment unrelated_user alignment_industry = 0"
    using industry_alignment_formula [of unrelated_user alignment_industry] disjoint by blast
  ultimately show ?thesis by (rule conjI)
qed

text \<open>
  C3 as stated fails when a matched skill is technical: the code adds the importance to
  the denominator before the factor 1.2 is applied, so the boost never enters the
  denominator. With Python, Excel and Writing all matched at proficiency 0.5 the code gives
  1.6 / 3, the claim's formula 1.6 / 3.2.
\<close>

theorem alignment_denominator_counterexample:
  "calculate_industry_alignment alignment_user alignment_industry = 8 / 15
   \<and> spec_industry_alignment alignment_user alignment_industry = 1 / 2
   \<and> spec_industry_alignment_denominator_only alignment_user alignment_industry = 15 / 32"
  by (simp add: calculate_industry_alignment_def alignment_step_def spec_industry_alignment_def
        spec_industry_alignment_denominator_only_def
        spec_importance_def alignment_user_def alignment_industry_def keys_def dict_item_def
        alignment_names Let_def)

section \<open>Saving matches: replace in one transaction\<close>




















section \<open>The batch run: which users count as failed\<close>

lemma recompute_user_raises:
  "(\<exists>e. fst (recompute_user st fl sims algorithm limit user_id s) = Inl e)
     \<longleftrightarrow> algorithm = ''tfidf'' \<and> uf_vocabulary fl"
  by (simp add: recompute_user_def Let_def)

lemma recompute_loop_counts:
  "total_users (fst (recompute_loop st faults_of sims algorithm limit users stats s))
     = total_users stats
   \<and> failed_users (fst (recompute_loop st faults_of sims algorithm limit users stats s))
     = failed_users stats
       + length (filter (\<lambda>u. algorithm = ''tfidf'' \<and> uf_vocabulary (faults_of u)) users)
   \<and> processed_users (fst (recompute_loop st faults_of sims algorithm limit users stats s))
     = processed_users stats
       + length (filter (\<lambda>u. \<not> (algorithm = ''tfidf'' \<and> uf_vocabulary (faults_of u))) users)"
proof (induction users arbitrary: stats s)
  case Nil
  then show ?case by simp
next
  case (Cons u users)
  obtain r s' where r: "recompute_user st (faults_of u) (sims u) algorithm limit u s = (r, s')"
    by (cases "recompute_user st (faults_of u) (sims u) algorithm limit u s")
  show ?case
  proof (cases r)
    case (Inl e)
    then have "algorithm = ''tfidf'' \<and> uf_vocabulary (faults_of u)"
      using recompute_user_raises [of st "faults_of u" "sims u" algorithm limit u s] r by auto
    then show ?thesis using r Inl Cons.IH by simp
  next
    case (Inr n)
    then have "\<not> (algorithm = ''tfidf'' \<and> uf_vocabulary (faults_of u))"
      using recompute_user_raises [of st "faults_of u" "sims u" algorithm limit u s] r by auto
    then show ?thesis using r Inr Cons.IH by simp
  qed
qed

lemma recompute_all_report:
  "\<exists>stats. fst (recompute_all_matches st faults_of sims (Inr users) limit algorithm s) = Report stats
     \<and> total_users stats = length users
     \<and> failed_users stats
         = length (filter (\<lambda>u. algorithm = ''tfidf'' \<and> uf_vocabulary (faults_of u)) users)
     \<and> processed_users stats
         = length (filter (\<lambda>u. \<not> (algorithm = ''tfidf'' \<and> uf_vocabulary (faults_of u))) users)"
proof -
  let ?init = "\<lparr> total_users = length users, processed_users = 0, failed_users = 0,
                  total_matches = 0 \<rparr>"
  obtain stats s' where l: "recompute_loop st faults_of sims algorithm limit users ?init s = (stats, s')"
    by (cases "recompute_loop st faults_of sims algorithm limit users ?init s")
  have "fst (recompute_all_matches st faults_of sims (Inr users) limit algorithm s) = Report stats"
    by (simp add: recompute_all_matches_def l)
  moreover have "total_users stats = length users
     \<and> failed_users stats
         = length (filter (\<lambda>u. algorithm = ''tfidf'' \<and> uf_vocabulary (faults_of u)) users)
     \<and> processed_users stats
         = length (filter (\<lambda>u. \<not> (algorithm = ''tfidf'' \<and> uf_vocabulary (faults_of u))) users)"
    using recompute_loop_counts [of st faults_of sims algorithm limit users ?init s] l by simp
  ultimately show ?thesis by blast
qed



lemma recompute_all_error:
  "recompute_all_matches st faults_of sims (Inl e) limit algorithm s = (ErrorReport, s)"
  by (simp add: recompute_all_matches_def)

lemma save_handled_nothing:
  "snd (save_handled create_gaps to_json version f user_id [] s) = 0"
  by (simp add: save_handled_def save_body_def db_delete_def db_commit_def)

lemma recompute_user_empty_store:
  "fst (recompute_user empty_store fl sims_u algorithm limit u s) = Inr 0
   \<or> (\<exists>e. fst (recompute_user empty_store fl sims_u algorithm limit u s) = Inl e)"
  by (simp add: recompute_user_def Let_def empty_store_def handled_def compute_matches_def
        create_job_skill_documents_def match_user_to_jobs_def get_jobs_with_skills_def
        save_matches_def save_job_matches_def save_handled_nothing)

lemma recompute_loop_empty_store:
  "total_matches (fst (recompute_loop empty_store faults_of sims algorithm limit users stats s))
     = total_matches stats"
proof (induction users arbitrary: stats s)
  case Nil
  then show ?case by simp
next
  case (Cons u users)
  obtain r s' where r:
    "recompute_user empty_store (faults_of u) (sims u) algorithm limit u s = (r, s')"
    by (cases "recompute_user empty_store (faults_of u) (sims u) algorithm limit u s")
  show ?case
  proof (cases r)
    case (Inl e)
    then show ?thesis using r Cons.IH by simp
  next
    case (Inr n)
    then have "n = 0"
      using recompute_user_empty_store [of "faults_of u" "sims u" algorithm limit u s] r by simp
    then show ?thesis using r Inr Cons.IH by simp
  qed
qed

lemma empty_store_report:
  assumes "\<And>u. u \<in> set users \<Longrightarrow> \<not> (algorithm = ''tfidf'' \<and> uf_vocabulary (faults_of u))"
  shows "fst (recompute_all_matches empty_store faults_of sims (Inr users) limit algorithm s)
           = Report \<lparr> total_users = length users, processed_users = length users,
                      failed_users = 0, total_matches = 0 \<rparr>"
proof -
  let ?init = "\<lparr> total_users = length users, processed_users = 0, failed_users = 0,
                  total_matches = 0 \<rparr>"
  let ?raises = "\<lambda>u. algorithm = ''tfidf'' \<and> uf_vocabulary (faults_of u)"
  obtain stats s' where l:
    "recompute_loop empty_store faults_of sims algorithm limit users ?init s = (stats, s')"
    by (cases "recompute_loop empty_store faults_of sims algorithm limit users ?init s")
  have none: "filter ?raises users = []"
    using assms by (simp add: filter_empty_conv)
  have all: "filter (\<lambda>u. \<not> ?raises u) users = users"
    using assms by (simp add: filter_id_conv)
  have counts: "total_users stats = length users \<and> failed_users stats = 0
                  \<and> processed_users stats = length users"
    using recompute_loop_counts [of empty_store faults_of sims algorithm limit users ?init s] l
    unfolding none all by simp
  have "total_matches stats = 0"
    using recompute_loop_empty_store [of faults_of sims algorithm limit users ?init s] l by simp
  then have "stats = \<lparr> total_users = length users, processed_users = length users,
                        failed_users = 0, total_matches = 0 \<rparr>"
    using counts by (cases stats) simp
  then show ?thesis
    by (simp add: recompute_all_matches_def l)
qed

text \<open>
  C8. A recompute-all run over the users \<open>users\<close> never raises and returns the statistics:
  \<open>total_users\<close> is the number of users, \<open>failed_users\<close> the number of users whose step
  raised to the loop, \<open>processed_users\<close> the number of the others, so the two add up to
  the number of users and the loop went on after every failure. The step of a user raises
  to the loop exactly when the algorithm is \<open>tfidf\<close> and the vocabulary query in the
  constructor of the TF-IDF matcher raises: an exception in \<open>_invalidate_old_matches\<close>,
  in \<open>compute_matches\<close>, in \<open>match_user_to_jobs\<close> or in a save is handled there, and the
  user counts as processed. When the query for the users raises, the error report is
  returned and the session is left as it was.
\<close>

theorem batch_counts_raising_users:
  fixes faults_of :: "nat \<Rightarrow> user_faults" and algorithm :: string
  defines "raises \<equiv> \<lambda>u. algorithm = ''tfidf'' \<and> uf_vocabulary (faults_of u)"
  shows "(\<exists>stats. fst (recompute_all_matches st faults_of sims (Inr users) limit algorithm s)
                    = Report stats
            \<and> total_users stats = length users
            \<and> failed_users stats = length (filter raises users)
            \<and> processed_users stats = length (filter (\<lambda>u. \<not> raises u) users)
            \<and> processed_users stats + failed_users stats = length users)
       \<and> (\<forall>u s0. (\<exists>e. fst (recompute_user st (faults_of u) (sims u) algorithm limit u s0) = Inl e)
                    = raises u)
       \<and> recompute_all_matches st faults_of sims (Inl e) limit algorithm s = (ErrorReport, s)"
proof -
  obtain stats where st:
    "fst (recompute_all_matches st faults_of sims (Inr users) limit algorithm s) = Report stats"
    "total_users stats = length users"
    "failed_users stats = length (filter raises users)"
    "processed_users stats = length (filter (\<lambda>u. \<not> raises u) users)"
    using recompute_all_report [of st faults_of sims users limit algorithm s]
    unfolding raises_def by blast
  have "length (filter (\<lambda>u. \<not> raises u) users) + length (filter raises users) = length users"
    using sum_length_filter_compl [of raises users] by simp
  then have sum: "processed_users stats + failed_users stats = length users"
    using st(3,4) by simp
  have first: "\<exists>stats. fst (recompute_all_matches st faults_of sims (Inr users) limit algorithm s)
                    = Report stats
            \<and> total_users stats = length users
            \<and> failed_users stats = length (filter raises users)
            \<and> processed_users stats = length (filter (\<lambda>u. \<not> raises u) users)
            \<and> processed_users stats + failed_users stats = length users"
    using st sum by blast
  have second: "\<forall>u s0. (\<exists>e. fst (recompute_user st (faults_of u) (sims u) algorithm limit u s0) = Inl e)
                    = raises u"
    unfolding raises_def by (simp add: recompute_user_raises)
  show ?thesis
    using first second recompute_all_error [of st faults_of sims e limit algorithm s]
    by (intro conjI) assumption+
qed

theorem batch_counts_raising_users_witness:
  "\<exists>stats. fst (recompute_all_matches empty_store vocabulary_fault_at_4 (\<lambda>u. []) (Inr ten_users)
                    50 ''tfidf'' empty_session) = Report stats
     \<and> total_users stats = 10 \<and> processed_users stats = 9 \<and> failed_users stats = 1"
proof -
  have failed: "length (filter (\<lambda>u. ''tfidf'' = ''tfidf'' \<and> uf_vocabulary (vocabulary_fault_at_4 u))
                          ten_users) = 1"
    by (simp add: ten_users_def vocabulary_fault_at_4_def no_faults_def)
  have processed:
    "length (filter (\<lambda>u. \<not> (''tfidf'' = ''tfidf'' \<and> uf_vocabulary (vocabulary_fault_at_4 u)))
               ten_users) = 9"
    by (simp add: ten_users_def vocabulary_fault_at_4_def no_faults_def)
  have total: "length ten_users = 10"
    by (simp add: ten_users_def)
  show ?thesis
    using batch_counts_raising_users [of empty_store vocabulary_fault_at_4 "\<lambda>u. []" ten_users 50
            "''tfidf''" empty_session StoreError]
    unfolding failed processed total by blast
qed

text \<open>
  C8 as stated fails when the exception is raised inside a matcher: the store access of
  user 4 raises in the body of \<open>compute_matches\<close> (or of \<open>match_user_to_jobs\<close>, or in
  every operation of the save), the matcher's own handler returns the empty result, and
  the run reports ten processed users and no failed one.
\<close>

theorem swallowed_failure_counterexample:
  "fst (recompute_all_matches empty_store skill_store_fault_at_4 (\<lambda>u. []) (Inr ten_users)
          50 ''tfidf'' empty_session)
     = Report \<lparr> total_users = 10, processed_users = 10, failed_users = 0, total_matches = 0 \<rparr>
   \<and> fst (recompute_all_matches empty_store skill_store_fault_at_4 (\<lambda>u. []) (Inr ten_users)
          50 ''emsi'' empty_session)
     = Report \<lparr> total_users = 10, processed_users = 10, failed_users = 0, total_matches = 0 \<rparr>
   \<and> fst (recompute_all_matches empty_store save_fault_at_4 (\<lambda>u. []) (Inr ten_users)
          50 ''tfidf'' empty_session)
     = Report \<lparr> total_users = 10, processed_users = 10, failed_users = 0, total_matches = 0 \<rparr>"
proof -
  have total: "length ten_users = 10"
    by (simp add: ten_users_def)
  have a: "\<And>u. \<not> (''tfidf'' = ''tfidf'' \<and> uf_vocabulary (skill_store_fault_at_4 u))"
    by (simp add: skill_store_fault_at_4_def no_faults_def)
  have b: "\<And>u. \<not> (''emsi'' = ''tfidf'' \<and> uf_vocabulary (skill_store_fault_at_4 u))"
    by simp
  have c: "\<And>u. \<not> (''tfidf'' = ''tfidf'' \<and> uf_vocabulary (save_fault_at_4 u))"
    by (simp add: save_fault_at_4_def no_faults_def)
  show ?thesis
    using empty_store_report [of ten_users "''tfidf''" skill_store_fault_at_4 "\<lambda>u. []" 50
            empty_session, OF a]
          empty_store_report [of ten_users "''emsi''" skill_store_fault_at_4 "\<lambda>u. []" 50
            empty_session, OF b]
          empty_store_report [of ten_users "''tfidf''" save_fault_at_4 "\<lambda>u. []" 50
            empty_session, OF c]
    unfolding total by simp
qed

section \<open>Similarity: the weighted score and the bounds of the four scores\<close>

lemma weighted_fold:
  "foldl (weighted_step user_skills job_skills) (a, b, c) xs =
     (a + (\<Sum>s\<leftarrow>xs. dict_get user_skills s 0 * dict_item job_skills s),
      b + (\<Sum>s\<leftarrow>xs. dict_item job_skills s),
      c + (\<Sum>s\<leftarrow>filter (\<lambda>s. 0 < dict_get user_skills s 0 \<and> is_technical_skill s) xs.
             dict_get user_skills s 0 * dict_item job_skills s * (5 / 10)))"
proof (induction xs arbitrary: a b c)
  case Nil
  then show ?case by simp
next
  case (Cons x xs)
  let ?u = "dict_get user_skills x 0" and ?j = "dict_item job_skills x"
  show ?case
  proof (cases "0 < ?u \<and> is_technical_skill x")
    case True
    then have step: "weighted_step user_skills job_skills (a, b, c) x
                       = (a + ?u * ?j, b + ?j, c + ?u * ?j * (5 / 10))"
      by (simp add: weighted_step_def Let_def)
    have "foldl (weighted_step user_skills job_skills) (a, b, c) (x # xs)
            = foldl (weighted_step user_skills job_skills)
                (a + ?u * ?j, b + ?j, c + ?u * ?j * (5 / 10)) xs"
      by (simp only: foldl_Cons step)
    then show ?thesis
      using True by (simp add: Cons.IH algebra_simps)
  next
    case False
    then have step: "weighted_step user_skills job_skills (a, b, c) x
                       = (a + ?u * ?j, b + ?j, c)"
      by (auto simp: weighted_step_def Let_def)
    have fold: "foldl (weighted_step user_skills job_skills) (a, b, c) (x # xs)
            = foldl (weighted_step user_skills job_skills) (a + ?u * ?j, b + ?j, c) xs"
      by (simp only: foldl_Cons step)
    have rest: "filter (\<lambda>s. 0 < dict_get user_skills s 0 \<and> is_technical_skill s) (x # xs)
            = filter (\<lambda>s. 0 < dict_get user_skills s 0 \<and> is_technical_skill s) xs"
      using False by simp
    show ?thesis
      unfolding fold rest by (simp add: Cons.IH algebra_simps)
  qed
qed

lemma sum_list_remdups: "(\<Sum>s\<leftarrow>remdups xs. f s) = (\<Sum>s\<in>set xs. f s)"
  using sum.distinct_set_conv_list [of "remdups xs" f] by simp

lemma sum_list_filter_remdups:
  "(\<Sum>s\<leftarrow>filter P (remdups xs). f s) = (\<Sum>s\<in>{s \<in> set xs. P s}. f s)"
proof -
  have "distinct (filter P (remdups xs))" by simp
  then have "(\<Sum>s\<in>set (filter P (remdups xs)). f s) = (\<Sum>s\<leftarrow>filter P (remdups xs). f s)"
    by (rule sum.distinct_set_conv_list)
  then show ?thesis by simp
qed

lemma dict_item_nonneg:
  assumes "\<forall>w\<in>snd ` set d. (0::real) \<le> w" and "k \<in> set (keys d)"
  shows "0 \<le> dict_item d k"
proof -
  obtain v where v: "map_of d k = Some v"
    using assms(2) in_keys_iff [of k d] by blast
  then have "(k, v) \<in> set d" by (rule map_of_SomeD)
  then have "v \<in> snd ` set d" by force
  then have "0 \<le> v" by (rule bspec [OF assms(1)])
  then show ?thesis using v by (simp add: dict_item_def)
qed

lemma dict_get_nonneg:
  assumes "\<forall>w\<in>snd ` set d. (0::real) \<le> w"
  shows "0 \<le> dict_get d k 0"
proof (cases "map_of d k")
  case None
  then show ?thesis by (simp add: dict_get_def)
next
  case (Some v)
  then have "(k, v) \<in> set d" by (rule map_of_SomeD)
  then have "v \<in> snd ` set d" by force
  then have "0 \<le> v" by (rule bspec [OF assms])
  then show ?thesis using Some by (simp add: dict_get_def)
qed

text \<open>The Cauchy-Schwarz inequality for two vectors read off one list of indices.\<close>

lemma cauchy_schwarz_step:
  fixes a b A B C :: real
  assumes "C\<^sup>2 \<le> A * B" and "0 \<le> A" and "0 \<le> B"
  shows "(C + a * b)\<^sup>2 \<le> (A + a * a) * (B + b * b)"
proof -
  have nonneg: "0 \<le> A * (b * b) + (a * a) * B"
    using assms(2,3) by simp
  have "(2 * (a * b) * C)\<^sup>2 = 4 * ((a * a) * (b * b)) * C\<^sup>2"
    by (simp add: power2_eq_square algebra_simps)
  also have "\<dots> \<le> 4 * ((a * a) * (b * b)) * (A * B)"
    using assms(1) by (intro mult_left_mono) simp_all
  also have "\<dots> \<le> (A * (b * b) + (a * a) * B)\<^sup>2"
  proof -
    have "0 \<le> (A * (b * b) - (a * a) * B)\<^sup>2" by simp
    then show ?thesis by (simp add: power2_eq_square algebra_simps)
  qed
  finally have "(2 * (a * b) * C)\<^sup>2 \<le> (A * (b * b) + (a * a) * B)\<^sup>2" .
  then have "2 * (a * b) * C \<le> A * (b * b) + (a * a) * B"
    using nonneg by (rule power2_le_imp_le)
  moreover have "(C + a * b)\<^sup>2 = C\<^sup>2 + 2 * (a * b) * C + (a * a) * (b * b)"
    by (simp add: power2_eq_square algebra_simps)
  moreover have "(A + a * a) * (B + b * b)
                   = A * B + (A * (b * b) + (a * a) * B) + (a * a) * (b * b)"
    by (simp add: algebra_simps)
  ultimately show ?thesis using assms(1) by linarith
qed

lemma cauchy_schwarz_list:
  fixes f g :: "'a \<Rightarrow> real"
  shows "(\<Sum>s\<leftarrow>l. f s * g s)\<^sup>2 \<le> (\<Sum>s\<leftarrow>l. f s * f s) * (\<Sum>s\<leftarrow>l. g s * g s)"
proof (induction l)
  case Nil
  then show ?case by simp
next
  case (Cons x l)
  have A: "0 \<le> (\<Sum>s\<leftarrow>l. f s * f s)" by (rule sum_list_nonneg) auto
  have B: "0 \<le> (\<Sum>s\<leftarrow>l. g s * g s)" by (rule sum_list_nonneg) auto
  show ?case
    using cauchy_schwarz_step [OF Cons.IH A B, of "f x" "g x"]
    by (simp add: add.commute)
qed

lemma cosine_similarity_le_1:
  "cosine_similarity (map f l) (map g l) \<le> 1"
proof -
  let ?C = "\<Sum>s\<leftarrow>l. f s * g s"
  let ?A = "\<Sum>s\<leftarrow>l. f s * f s"
  let ?B = "\<Sum>s\<leftarrow>l. g s * g s"
  have A: "0 \<le> ?A" by (rule sum_list_nonneg) auto
  have B: "0 \<le> ?B" by (rule sum_list_nonneg) auto
  have dot: "sum_list (map2 (*) (map f l) (map g l)) = ?C"
    by (induction l) simp_all
  have nx: "sum_list (map (\<lambda>v. v * v) (map f l)) = ?A"
    by (simp add: comp_def)
  have ny: "sum_list (map (\<lambda>v. v * v) (map g l)) = ?B"
    by (simp add: comp_def)
  have "?C \<le> \<bar>?C\<bar>" by simp
  also have "\<bar>?C\<bar> = sqrt (?C\<^sup>2)" by simp
  also have "\<dots> \<le> sqrt (?A * ?B)"
    using cauchy_schwarz_list [of f g l] by (simp only: real_sqrt_le_iff)
  also have "\<dots> = sqrt ?A * sqrt ?B" by (rule real_sqrt_mult)
  finally have le: "?C \<le> sqrt ?A * sqrt ?B" .
  show ?thesis
  proof (cases "sqrt ?A = 0 \<or> sqrt ?B = 0")
    case True
    then show ?thesis unfolding cosine_similarity_def Let_def dot nx ny by simp
  next
    case False
    then have pos: "0 < sqrt ?A * sqrt ?B"
      using A B by (simp add: zero_less_mult_iff less_le)
    have "?C / (sqrt ?A * sqrt ?B) \<le> 1"
      using le pos by (simp add: divide_le_eq)
    then show ?thesis using False unfolding cosine_similarity_def Let_def dot nx ny by simp
  qed
qed

lemma cosine_similarity_nonneg:
  assumes "\<And>s. 0 \<le> f s" and "\<And>s. 0 \<le> g s"
  shows "0 \<le> cosine_similarity (map f l) (map g l)"
proof -
  let ?C = "\<Sum>s\<leftarrow>l. f s * g s"
  let ?A = "sum_list (map (\<lambda>v. v * v) (map f l))"
  let ?B = "sum_list (map (\<lambda>v. v * v) (map g l))"
  have dot: "sum_list (map2 (*) (map f l) (map g l)) = ?C"
    by (induction l) simp_all
  have "0 \<le> ?C"
    using assms by (intro sum_list_nonneg) auto
  moreover have "0 \<le> sqrt ?A * sqrt ?B"
    by (intro mult_nonneg_nonneg real_sqrt_ge_zero sum_list_nonneg) auto
  ultimately have "0 \<le> ?C / (sqrt ?A * sqrt ?B)"
    by (rule divide_nonneg_nonneg)
  then show ?thesis
    unfolding cosine_similarity_def Let_def dot by simp
qed


lemma weighted_loop:
  "foldl (weighted_step user_skills job_skills) (0, 0, 0) (remdups (keys job_skills))
     = (spec_weighted_numerator user_skills job_skills, spec_weighted_denominator job_skills,
        spec_technical_bonus user_skills job_skills)"
proof -
  have bonus:
    "(\<Sum>s\<leftarrow>filter (\<lambda>s. 0 < dict_get user_skills s 0 \<and> is_technical_skill s)
          (remdups (keys job_skills)).
        dict_get user_skills s 0 * dict_item job_skills s * (5 / 10))
     = spec_technical_bonus user_skills job_skills"
    unfolding sum_list_filter_remdups spec_technical_bonus_def
    by (rule sum.cong) auto
  show ?thesis
    unfolding weighted_fold bonus
    by (simp add: sum_list_remdups spec_weighted_numerator_def spec_weighted_denominator_def)
qed

lemma calculate_similarity_fields:
  fixes user_skills job_skills :: "(string, real) dict"
  defines "un \<equiv> union_ids (remdups (keys user_skills)) (remdups (keys job_skills))"
  defines "r \<equiv> calculate_similarity user_skills job_skills"
  defines "den \<equiv> spec_weighted_denominator job_skills"
  shows "jaccard r = (if un = [] then 0
                      else real (length (intersection (remdups (keys user_skills))
                                           (remdups (keys job_skills)))) / real (length un))"
    and "cosine r = cosine_similarity (map (\<lambda>s. dict_get user_skills s 0) (sort un))
                      (map (\<lambda>s. dict_get job_skills s 0) (sort un))"
    and "weighted r = (if un = [] then 0
                       else if den > 0
                       then min 1 (spec_weighted_numerator user_skills job_skills / den
                                   + spec_technical_bonus user_skills job_skills / den)
                       else 0)"
    and "overall r = jaccard r * (2 / 10) + cosine r * (3 / 10) + weighted r * (5 / 10)"
proof -
  have empty: "sort un = [] \<longleftrightarrow> un = []"
    by (metis length_sort length_0_conv)
  show "jaccard r = (if un = [] then 0
                      else real (length (intersection (remdups (keys user_skills))
                                           (remdups (keys job_skills)))) / real (length un))"
    unfolding r_def calculate_similarity_def Let_def weighted_loop un_def [symmetric] empty
    by simp
  show "cosine r = cosine_similarity (map (\<lambda>s. dict_get user_skills s 0) (sort un))
                      (map (\<lambda>s. dict_get job_skills s 0) (sort un))"
    unfolding r_def calculate_similarity_def Let_def weighted_loop un_def [symmetric] empty
    by (simp add: cosine_similarity_def)
  show "weighted r = (if un = [] then 0
                       else if den > 0
                       then min 1 (spec_weighted_numerator user_skills job_skills / den
                                   + spec_technical_bonus user_skills job_skills / den)
                       else 0)"
    unfolding r_def calculate_similarity_def Let_def weighted_loop un_def [symmetric] empty
      den_def
    by simp
  show "overall r = jaccard r * (2 / 10) + cosine r * (3 / 10) + weighted r * (5 / 10)"
    unfolding r_def calculate_similarity_def Let_def weighted_loop un_def [symmetric] empty
    by simp
qed


lemma technical_python_excel:
  "is_technical_skill ''python''" "\<not> is_technical_skill ''excel''"
  "\<not> is_technical_skill ''writing''"
  by code_simp+

lemma python_excel_sums:
  "spec_weighted_denominator python_excel_job = 4"
  "spec_weighted_numerator python_excel_user python_excel_job = 5 / 2"
  "spec_technical_bonus python_excel_user python_excel_job = 1"
proof -
  have technical:
    "{s \<in> set (keys python_excel_job).
        is_technical_skill s \<and> 0 < dict_get python_excel_user s 0} = {''python''}"
    by (auto simp add: python_excel_job_def python_excel_user_def keys_def dict_get_def
          technical_python_excel)
  show "spec_weighted_denominator python_excel_job = 4"
    by (simp add: spec_weighted_denominator_def python_excel_job_def keys_def dict_item_def)
  show "spec_weighted_numerator python_excel_user python_excel_job = 5 / 2"
    by (simp add: spec_weighted_numerator_def python_excel_job_def python_excel_user_def
          keys_def dict_item_def dict_get_def)
  show "spec_technical_bonus python_excel_user python_excel_job = 1"
    unfolding spec_technical_bonus_def technical
    by (simp add: python_excel_job_def python_excel_user_def keys_def dict_item_def
          dict_get_def)
qed

lemma union_ids_keys:
  "set (union_ids (remdups a) (remdups b)) = set a \<union> set b"
  "distinct (union_ids (remdups a) (remdups b))"
  by (simp_all add: union_ids_def)

lemma spec_sums_nonneg:
  assumes "\<forall>w\<in>snd ` set user_skills. (0::real) \<le> w"
    and "\<forall>w\<in>snd ` set job_skills. (0::real) \<le> w"
  shows "0 \<le> spec_weighted_denominator job_skills"
    and "0 \<le> spec_weighted_numerator user_skills job_skills"
    and "0 \<le> spec_technical_bonus user_skills job_skills"
proof -
  have j: "\<And>s. s \<in> set (keys job_skills) \<Longrightarrow> 0 \<le> dict_item job_skills s"
    using assms(2) by (rule dict_item_nonneg)
  have u: "\<And>s. 0 \<le> dict_get user_skills s 0"
    using assms(1) by (rule dict_get_nonneg)
  show "0 \<le> spec_weighted_denominator job_skills"
    unfolding spec_weighted_denominator_def by (rule sum_nonneg) (rule j)
  show "0 \<le> spec_weighted_numerator user_skills job_skills"
    unfolding spec_weighted_numerator_def
    by (rule sum_nonneg) (simp add: j u)
  show "0 \<le> spec_technical_bonus user_skills job_skills"
    unfolding spec_technical_bonus_def
    by (rule sum_nonneg) (simp add: j u)
qed

lemma weighted_is_spec_weighted:
  assumes "\<forall>w\<in>snd ` set user_skills. (0::real) \<le> w"
    and "\<forall>w\<in>snd ` set job_skills. (0::real) \<le> w"
  shows "weighted (calculate_similarity user_skills job_skills)
           = spec_weighted user_skills job_skills"
proof -
  let ?un = "union_ids (remdups (keys user_skills)) (remdups (keys job_skills))"
  let ?den = "spec_weighted_denominator job_skills"
  have den: "0 \<le> ?den" using assms by (rule spec_sums_nonneg)
  show ?thesis
  proof (cases "?un = []")
    case True
    then have "set ?un = {}" by simp
    then have "set (keys job_skills) = {}" unfolding union_ids_keys by simp
    then have "?den = 0" by (simp add: spec_weighted_denominator_def)
    then show ?thesis
      using True calculate_similarity_fields(3) [of user_skills job_skills]
      by (simp add: spec_weighted_def)
  next
    case False
    show ?thesis
    proof (cases "?den = 0")
      case True
      then show ?thesis
        using False calculate_similarity_fields(3) [of user_skills job_skills]
        by (simp add: spec_weighted_def)
    next
      case nz: False
      then have "0 < ?den" using den by simp
      then show ?thesis
        using False nz calculate_similarity_fields(3) [of user_skills job_skills]
        by (simp add: spec_weighted_def Let_def)
    qed
  qed
qed

lemma spec_weighted_bounds:
  assumes "\<forall>w\<in>snd ` set user_skills. (0::real) \<le> w"
    and "\<forall>w\<in>snd ` set job_skills. (0::real) \<le> w"
  shows "0 \<le> spec_weighted user_skills job_skills \<and> spec_weighted user_skills job_skills \<le> 1"
proof -
  let ?den = "spec_weighted_denominator job_skills"
  let ?q = "spec_weighted_numerator user_skills job_skills / ?den
              + spec_technical_bonus user_skills job_skills / ?den"
  have "0 \<le> ?q"
    using spec_sums_nonneg [OF assms] by (intro add_nonneg_nonneg divide_nonneg_nonneg)
  then have "0 \<le> min 1 ?q \<and> min 1 ?q \<le> 1" by simp
  then show ?thesis by (simp add: spec_weighted_def Let_def)
qed

lemma jaccard_is_quotient:
  fixes user_skills job_skills :: "(string, real) dict"
  defines "U \<equiv> set (keys user_skills)" and "J \<equiv> set (keys job_skills)"
  shows "jaccard (calculate_similarity user_skills job_skills)
           = (if U \<union> J = {} then 0 else real (card (U \<inter> J)) / real (card (U \<union> J)))"
proof -
  let ?un = "union_ids (remdups (keys user_skills)) (remdups (keys job_skills))"
  let ?inter = "intersection (remdups (keys user_skills)) (remdups (keys job_skills))"
  have un: "length ?un = card (U \<union> J)"
    using distinct_card [OF union_ids_keys(2) [of "keys user_skills" "keys job_skills"]]
    unfolding union_ids_keys U_def J_def by simp
  have "distinct ?inter" by (simp add: intersection_def)
  then have "card (set ?inter) = length ?inter" by (rule distinct_card)
  then have inter: "length ?inter = card (U \<inter> J)"
    unfolding set_intersection U_def J_def by simp
  have empty: "?un = [] \<longleftrightarrow> U \<union> J = {}"
    using union_ids_keys(1) [of "keys user_skills" "keys job_skills"]
    unfolding U_def J_def by (metis set_empty)
  show ?thesis
    unfolding calculate_similarity_fields(1) un inter empty by simp
qed

lemma jaccard_bounds:
  "0 \<le> jaccard (calculate_similarity user_skills job_skills)
   \<and> jaccard (calculate_similarity user_skills job_skills) \<le> 1"
proof (cases "set (keys user_skills) \<union> set (keys job_skills) = {}")
  case True
  then show ?thesis
    unfolding jaccard_is_quotient by simp
next
  case False
  let ?U = "set (keys user_skills)" and ?J = "set (keys job_skills)"
  have "card (?U \<inter> ?J) \<le> card (?U \<union> ?J)"
    by (rule card_mono) auto
  moreover have "0 < card (?U \<union> ?J)"
    using False by (simp add: card_gt_0_iff)
  ultimately have "real (card (?U \<inter> ?J)) / real (card (?U \<union> ?J)) \<le> 1"
    by (simp add: divide_le_eq_1)
  then show ?thesis
    unfolding jaccard_is_quotient using False by simp
qed

lemma sort_union_ids:
  fixes a b :: "string list"
  shows "sort (union_ids (remdups a) (remdups b)) = sorted_list_of_set (set a \<union> set b)"
proof -
  have "sorted_list_of_set (set (union_ids (remdups a) (remdups b)))
          = sort (remdups (union_ids (remdups a) (remdups b)))"
    by (rule sorted_list_of_set_sort_remdups)
  then show ?thesis
    unfolding union_ids_keys by (simp add: union_ids_def remdups_remdups)
qed

lemma cosine_bounds:
  assumes "\<forall>w\<in>snd ` set user_skills. (0::real) \<le> w"
    and "\<forall>w\<in>snd ` set job_skills. (0::real) \<le> w"
  shows "0 \<le> cosine (calculate_similarity user_skills job_skills)
         \<and> cosine (calculate_similarity user_skills job_skills) \<le> 1"
  unfolding calculate_similarity_fields(2)
  using cosine_similarity_nonneg [of "\<lambda>s. dict_get user_skills s 0" "\<lambda>s. dict_get job_skills s 0",
          OF dict_get_nonneg [OF assms(1)] dict_get_nonneg [OF assms(2)]]
        cosine_similarity_le_1
  by blast


lemma overall_bounds:
  fixes j c w :: real
  assumes "0 \<le> j \<and> j \<le> 1" and "0 \<le> c \<and> c \<le> 1" and "0 \<le> w \<and> w \<le> 1"
  shows "0 \<le> j * (2 / 10) + c * (3 / 10) + w * (5 / 10)
         \<and> j * (2 / 10) + c * (3 / 10) + w * (5 / 10) \<le> 1"
  using assms by simp

text \<open>
  C2. For skill maps with non-negative weights (proficiencies on the user's side,
  importances on the job's), the scorer's \<open>weighted\<close> is the sum over the job's skills of
  user weight (0 when absent) times job weight, divided by the sum of the job's weights
  and taken as 0 when that sum is 0, plus the bonus (half of user weight times job weight,
  summed over the technical job skills the user has with a positive weight) divided by the
  same sum, clamped to at most 1. \<open>overall\<close> is 0.2 \<open>jaccard\<close> + 0.3 \<open>cosine\<close> + 0.5 \<open>weighted\<close>,
  \<open>jaccard\<close> is the size of the intersection of the key sets over the size of their union
  (0 for an empty union), \<open>cosine\<close> is the cosine similarity of the two vectors over the
  sorted union, and each of the four scores lies between 0 and 1.
\<close>

theorem similarity_scores:
  fixes user_skills job_skills :: "(string, real) dict"
  assumes "\<forall>w\<in>snd ` set user_skills. 0 \<le> w" and "\<forall>w\<in>snd ` set job_skills. 0 \<le> w"
  defines "r \<equiv> calculate_similarity user_skills job_skills"
    and "U \<equiv> set (keys user_skills)" and "J \<equiv> set (keys job_skills)"
  shows "weighted r = spec_weighted user_skills job_skills
       \<and> overall r = 2 / 10 * jaccard r + 3 / 10 * cosine r + 5 / 10 * weighted r
       \<and> jaccard r = (if U \<union> J = {} then 0 else real (card (U \<inter> J)) / real (card (U \<union> J)))
       \<and> cosine r = cosine_similarity
                       (map (\<lambda>s. dict_get user_skills s 0) (sorted_list_of_set (U \<union> J)))
                       (map (\<lambda>s. dict_get job_skills s 0) (sorted_list_of_set (U \<union> J)))
       \<and> 0 \<le> jaccard r \<and> jaccard r \<le> 1
       \<and> 0 \<le> cosine r \<and> cosine r \<le> 1
       \<and> 0 \<le> weighted r \<and> weighted r \<le> 1
       \<and> 0 \<le> overall r \<and> overall r \<le> 1"
proof -
  have w: "weighted r = spec_weighted user_skills job_skills"
    unfolding r_def using assms(1,2) by (rule weighted_is_spec_weighted)
  have o: "overall r = jaccard r * (2 / 10) + cosine r * (3 / 10) + weighted r * (5 / 10)"
    unfolding r_def by (rule calculate_similarity_fields(4))
  then have o': "overall r = 2 / 10 * jaccard r + 3 / 10 * cosine r + 5 / 10 * weighted r"
    by (simp add: mult.commute)
  have j: "jaccard r = (if U \<union> J = {} then 0
                        else real (card (U \<inter> J)) / real (card (U \<union> J)))"
    unfolding r_def U_def J_def by (rule jaccard_is_quotient)
  have c: "cosine r = cosine_similarity
                       (map (\<lambda>s. dict_get user_skills s 0) (sorted_list_of_set (U \<union> J)))
                       (map (\<lambda>s. dict_get job_skills s 0) (sorted_list_of_set (U \<union> J)))"
    unfolding r_def U_def J_def calculate_similarity_fields(2) sort_union_ids by (rule refl)
  have jb: "0 \<le> jaccard r \<and> jaccard r \<le> 1"
    unfolding r_def by (rule jaccard_bounds)
  have cb: "0 \<le> cosine r \<and> cosine r \<le> 1"
    unfolding r_def using assms(1,2) by (rule cosine_bounds)
  have wb: "0 \<le> weighted r \<and> weighted r \<le> 1"
    unfolding w using assms(1,2) by (rule spec_weighted_bounds)
  have ob: "0 \<le> overall r \<and> overall r \<le> 1"
    unfolding o using jb cb wb by (rule overall_bounds)
  show ?thesis
    using w o' j c jb cb wb ob by (elim conjE, intro conjI) assumption+
qed

theorem similarity_scores_witness:
  "snd ` set python_excel_user = {1, 1 / 2} \<and> snd ` set python_excel_job = {2, 1}
   \<and> weighted (calculate_similarity python_excel_user python_excel_job) = 7 / 8
   \<and> jaccard (calculate_similarity python_excel_user python_excel_job) = 2 / 3
   \<and> overall (calculate_similarity python_excel_user python_excel_job)
       = 2 / 10 * (2 / 3)
         + 3 / 10 * cosine (calculate_similarity python_excel_user python_excel_job)
         + 5 / 10 * (7 / 8)
   \<and> 0 \<le> cosine (calculate_similarity python_excel_user python_excel_job)
   \<and> cosine (calculate_similarity python_excel_user python_excel_job) \<le> 1
   \<and> overall (calculate_similarity python_excel_user python_excel_job) \<le> 1"
proof -
  have u: "\<forall>w\<in>snd ` set python_excel_user. 0 \<le> w"
    by (simp add: python_excel_user_def)
  have j: "\<forall>w\<in>snd ` set python_excel_job. 0 \<le> w"
    by (simp add: python_excel_job_def)
  have w: "spec_weighted python_excel_user python_excel_job = 7 / 8"
    by (simp add: spec_weighted_def python_excel_sums)
  have inter: "set (keys python_excel_user) \<inter> set (keys python_excel_job)
                 = {''python'', ''excel''}"
    by (auto simp add: python_excel_user_def python_excel_job_def keys_def)
  have un: "set (keys python_excel_user) \<union> set (keys python_excel_job)
              = {''python'', ''excel'', ''writing''}"
    by (auto simp add: python_excel_user_def python_excel_job_def keys_def)
  have q: "(if set (keys python_excel_user) \<union> set (keys python_excel_job) = {} then 0
            else real (card (set (keys python_excel_user) \<inter> set (keys python_excel_job)))
                 / real (card (set (keys python_excel_user) \<union> set (keys python_excel_job))))
           = 2 / 3"
    unfolding inter un by simp
  have weights: "snd ` set python_excel_user = {1, 1 / 2}"
    "snd ` set python_excel_job = {2, 1}"
    by (simp_all add: python_excel_user_def python_excel_job_def)
  show ?thesis
    using similarity_scores [OF u j] weights
    unfolding w q by simp
qed

end
